theory Spec2Isabelle
  imports Complex_Main "HOL-Library.Word"
begin

section \<open>The Yans error-rate model of the wifi module\<close>

text \<open>
  The development embeds \<^verbatim>\<open>YansErrorRateModel\<close> (yans-error-rate-model.cc).
  Machine integers are words of the width the source declares (\<^verbatim>\<open>uint32_t\<close> and
  \<^verbatim>\<open>unsigned int\<close> are \<open>32 word\<close>, \<^verbatim>\<open>uint64_t\<close> is \<open>64 word\<close>,
  \<^verbatim>\<open>uint16_t\<close> is \<open>16 word\<close>), so that every wrap-around of the source is
  a wrap-around of the model. A \<^verbatim>\<open>double\<close> is modelled by a real number: the
  products, powers and sums are the exact ones, and rounding, infinities and NaN are
  outside the model. \<^verbatim>\<open>MHz_u\<close> is a \<^verbatim>\<open>double\<close> and hence a real as well.
  An unsigned integer division by zero and a failed \<^verbatim>\<open>NS_ASSERT\<close> stop the
  program; both are results of the model.
\<close>

datatype failure = DivisionByZero | AssertionFailed

subsection \<open>Factorial and the binomial term\<close>

text \<open>
  \<^verbatim>\<open>uint32_t fact = 1; while (k > 0) { fact *= k; k--; } return fact;\<close>
\<close>

function Factorial_loop :: "32 word \<Rightarrow> 32 word \<Rightarrow> 32 word" where
  "Factorial_loop fct k = (if k > 0 then Factorial_loop (fct * k) (k - 1) else fct)"
  by pat_completeness auto
termination
  by (relation "measure (\<lambda>(fct, k). unat k)") (auto simp: measure_unat)

declare Factorial_loop.simps [simp del]

definition Factorial :: "32 word \<Rightarrow> 32 word" where
  "Factorial k = Factorial_loop 1 k"

text \<open>
  \<^verbatim>\<open>Factorial(n) / (Factorial(k) * Factorial(n - k)) * pow(p, k) * pow(1 - p, n - k)\<close>:
  the quotient is an unsigned 32-bit division, converted to \<^verbatim>\<open>double\<close> only
  afterwards; \<^verbatim>\<open>n - k\<close> is an unsigned subtraction.
\<close>

definition Binomial :: "32 word \<Rightarrow> real \<Rightarrow> 32 word \<Rightarrow> failure + real" where
  "Binomial k p n =
     (let den = Factorial k * Factorial (n - k)
      in if den = 0 then Inl DivisionByZero
         else Inr (real (unat (Factorial n div den)) * p ^ unat k * (1 - p) ^ unat (n - k)))"

subsection \<open>Pairwise error probability\<close>

text \<open>
  \<^verbatim>\<open>for (unsigned int i = dstart; i < dend; i++) { pd += Binomial(i, ber, d); }\<close>,
  the loop of both \<^verbatim>\<open>CalculatePdOdd\<close> and \<^verbatim>\<open>CalculatePdEven\<close>, with the
  loop variable and the accumulator as arguments.
\<close>

function CalculatePd_loop ::
  "real \<Rightarrow> 32 word \<Rightarrow> 32 word \<Rightarrow> 32 word \<Rightarrow> real \<Rightarrow> failure + real" where
  "CalculatePd_loop ber d i dend pd =
     (if i < dend
      then (case Binomial i ber d of
              Inl e \<Rightarrow> Inl e
            | Inr b \<Rightarrow> CalculatePd_loop ber d (i + 1) dend (pd + b))
      else Inr pd)"
  by pat_completeness auto
termination
proof (relation "measure (\<lambda>(ber, d, i, dend, pd). unat dend - unat i)")
  fix i dend :: "32 word" and ber pd b :: real and d :: "32 word"
  assume "i < dend"
  then have "unat dend - unat (i + 1) < unat dend - unat i"
    by unat_arith
  then show "((ber, d, i + 1, dend, pd + b), (ber, d, i, dend, pd))
      \<in> measure (\<lambda>(ber, d, i, dend, pd). unat dend - unat i)"
    by simp
qed simp

declare CalculatePd_loop.simps [simp del]

definition CalculatePdOdd :: "real \<Rightarrow> 32 word \<Rightarrow> failure + real" where
  "CalculatePdOdd ber d =
     (if d mod 2 \<noteq> 1 then Inl AssertionFailed
      else let dstart = (d + 1) div 2; dend = d
           in CalculatePd_loop ber d dstart dend 0)"

definition CalculatePdEven :: "real \<Rightarrow> 32 word \<Rightarrow> failure + real" where
  "CalculatePdEven ber d =
     (if d mod 2 \<noteq> 0 then Inl AssertionFailed
      else let dstart = d div 2 + 1; dend = d
           in (case CalculatePd_loop ber d dstart dend 0 of
                 Inl e \<Rightarrow> Inl e
               | Inr pd \<Rightarrow>
                   (case Binomial (d div 2) ber d of
                      Inl e \<Rightarrow> Inl e
                    | Inr b \<Rightarrow> Inr (pd + 0.5 * b))))"

definition CalculatePd :: "real \<Rightarrow> 32 word \<Rightarrow> failure + real" where
  "CalculatePd ber d =
     (if d mod 2 = 0 then CalculatePdEven ber d else CalculatePdOdd ber d)"

subsection \<open>Modes, transmission vectors and what the model takes from outside\<close>

text \<open>
  Modelled from the spec: the enumeration \<^verbatim>\<open>WifiCodeRate\<close> is declared in a header
  of the wifi module that is not embedded here; the spec names the ratios 1/2, 2/3, 3/4
  and 5/6.
\<close>

datatype WifiCodeRate =
    WIFI_CODE_RATE_1_2
  | WIFI_CODE_RATE_2_3
  | WIFI_CODE_RATE_3_4
  | WIFI_CODE_RATE_5_6

text \<open>
  Modelled from the spec: the enumeration \<^verbatim>\<open>WifiPpduField\<close> is declared in a
  header that is not embedded here; the spec has the field type distinguish a header from
  the data portion. \<^verbatim>\<open>DoGetChunkSuccessRate\<close> receives it and only logs it.
\<close>

datatype WifiPpduField = WIFI_PPDU_FIELD_HEADER | WIFI_PPDU_FIELD_DATA

text \<open>
  Modelled from the spec: the classes \<^verbatim>\<open>WifiMode\<close> and \<^verbatim>\<open>WifiTxVector\<close> are
  declared in headers that are not embedded here. A mode is the immutable scheme descriptor: an identity
  (the comparison \<^verbatim>\<open>mode != txVector.GetMode(staId)\<close> is equality of records, which
  for modes that are determined by their identity is equality of identities), the
  modulation class as the ordinal of its enumerator, the constellation size and the code
  rate. A transmission vector gives the multi-user flag, the mode of each station and the
  channel width.
\<close>

record WifiMode =
  GetUid :: "32 word"
  GetModulationClass :: nat
  GetConstellationSize :: "16 word"
  GetCodeRate :: WifiCodeRate

record WifiTxVector =
  IsMu :: bool
  GetMode :: "16 word \<Rightarrow> WifiMode"
  GetChannelWidth :: real

text \<open>
  What the functions use and the embedded file does not define is a parameter of the
  model: the complementary error function of the C library, the ordinal of the
  enumerator \<^verbatim>\<open>WIFI_MOD_CLASS_ERP_OFDM\<close>, the constant \<^verbatim>\<open>SU_STA_ID\<close>, and the
  two overloads of \<^verbatim>\<open>WifiMode::GetPhyRate\<close> (by channel width, and by transmission
  vector and station).
\<close>

record externals =
  erfc :: "real \<Rightarrow> real"
  WIFI_MOD_CLASS_ERP_OFDM :: nat
  SU_STA_ID :: "16 word"
  GetPhyRate_width :: "WifiMode \<Rightarrow> real \<Rightarrow> 64 word"
  GetPhyRate_txVector :: "WifiMode \<Rightarrow> WifiTxVector \<Rightarrow> 16 word \<Rightarrow> 64 word"

subsection \<open>Raw bit error rates\<close>

definition GetBpskBer :: "externals \<Rightarrow> real \<Rightarrow> real \<Rightarrow> 64 word \<Rightarrow> real" where
  "GetBpskBer E snr signalSpread phyRate =
     (let EbNo = snr * signalSpread * 1000000 / real (unat phyRate);
          z = sqrt EbNo;
          ber = 0.5 * erfc E z
      in ber)"

definition GetQamBer :: "externals \<Rightarrow> real \<Rightarrow> 32 word \<Rightarrow> real \<Rightarrow> 64 word \<Rightarrow> real" where
  "GetQamBer E snr m signalSpread phyRate =
     (let EbNo = snr * signalSpread * 1000000 / real (unat phyRate);
          z = sqrt ((1.5 * log 2 (real (unat m)) * EbNo) / (real (unat m) - 1.0));
          z1 = (1.0 - 1.0 / sqrt (real (unat m))) * erfc E z;
          z2 = 1 - (1 - z1) ^ 2;
          ber = z2 / log 2 (real (unat m))
      in ber)"

subsection \<open>Chunk success rate of a coded transmission\<close>

definition GetFecBpskBer ::
  "externals \<Rightarrow> real \<Rightarrow> 64 word \<Rightarrow> real \<Rightarrow> 64 word \<Rightarrow> 32 word \<Rightarrow> 32 word
     \<Rightarrow> failure + real" where
  "GetFecBpskBer E snr nbits signalSpread phyRate dFree adFree =
     (let ber = GetBpskBer E snr signalSpread phyRate
      in if ber = 0 then Inr 1
         else (case CalculatePd ber dFree of
                 Inl e \<Rightarrow> Inl e
               | Inr pd \<Rightarrow>
                   let pmu = real (unat adFree) * pd;
                       pmu = min pmu 1;
                       pms = (1 - pmu) ^ unat nbits
                   in Inr pms))"

definition GetFecQamBer ::
  "externals \<Rightarrow> real \<Rightarrow> 64 word \<Rightarrow> real \<Rightarrow> 64 word \<Rightarrow> 32 word \<Rightarrow> 32 word \<Rightarrow> 32 word
     \<Rightarrow> 32 word \<Rightarrow> failure + real" where
  "GetFecQamBer E snr nbits signalSpread phyRate m dFree adFree adFreePlusOne =
     (let ber = GetQamBer E snr m signalSpread phyRate
      in if ber = 0 then Inr 1
         else (case CalculatePd ber dFree of
                 Inl e \<Rightarrow> Inl e
               | Inr pd \<Rightarrow>
                   let pmu = real (unat adFree) * pd
                   in (case CalculatePd ber (dFree + 1) of
                         Inl e \<Rightarrow> Inl e
                       | Inr pd \<Rightarrow>
                           let pmu = pmu + real (unat adFreePlusOne) * pd;
                               pmu = min pmu 1;
                               pms = (1 - pmu) ^ unat nbits
                           in Inr pms)))"

subsection \<open>The dispatch\<close>

text \<open>
  The value that \<^verbatim>\<open>DoGetChunkSuccessRate\<close> gives its local variable
  \<^verbatim>\<open>phyRate\<close>: the rate of the mode at \<^verbatim>\<open>GetChannelWidth() >= 40 ? 20 :
  GetChannelWidth()\<close> when the transmission is multi-user and the station is
  \<^verbatim>\<open>SU_STA_ID\<close>, or the mode is not the one of the station; the rate of the mode
  for the transmission vector and the station otherwise.
\<close>

definition DoGetChunkSuccessRate_phyRate ::
  "externals \<Rightarrow> WifiMode \<Rightarrow> WifiTxVector \<Rightarrow> 16 word \<Rightarrow> 64 word" where
  "DoGetChunkSuccessRate_phyRate E mode txVector staId =
     (if (IsMu txVector \<and> staId = SU_STA_ID E) \<or> mode \<noteq> GetMode txVector staId
      then GetPhyRate_width E mode
             (if GetChannelWidth txVector \<ge> 40 then 20 else GetChannelWidth txVector)
      else GetPhyRate_txVector E mode txVector staId)"

text \<open>
  \<^verbatim>\<open>DoGetChunkSuccessRate(mode, txVector, snr, nbits, numRxAntennas, field, staId)\<close>.
  The branches are those of the source, in its order; a mode of an eligible class whose
  constellation size matches no branch falls through to the final \<^verbatim>\<open>return 0\<close>, as
  a mode of an ineligible class does.
\<close>

definition DoGetChunkSuccessRate ::
  "externals \<Rightarrow> WifiMode \<Rightarrow> WifiTxVector \<Rightarrow> real \<Rightarrow> 64 word \<Rightarrow> 8 word \<Rightarrow> WifiPpduField
     \<Rightarrow> 16 word \<Rightarrow> failure + real" where
  "DoGetChunkSuccessRate E mode txVector snr nbits numRxAntennas field staId =
     (if GetModulationClass mode \<ge> WIFI_MOD_CLASS_ERP_OFDM E
      then
        let phyRate = DoGetChunkSuccessRate_phyRate E mode txVector staId
        in if GetConstellationSize mode = 2
           then (if GetCodeRate mode = WIFI_CODE_RATE_1_2
                 then GetFecBpskBer E snr nbits (GetChannelWidth txVector) phyRate 10 11
                 else GetFecBpskBer E snr nbits (GetChannelWidth txVector) phyRate 5 8)
           else if GetConstellationSize mode = 4
           then (if GetCodeRate mode = WIFI_CODE_RATE_1_2
                 then GetFecQamBer E snr nbits (GetChannelWidth txVector) phyRate 4 10 11 0
                 else GetFecQamBer E snr nbits (GetChannelWidth txVector) phyRate 4 5 8 31)
           else if GetConstellationSize mode = 16
           then (if GetCodeRate mode = WIFI_CODE_RATE_1_2
                 then GetFecQamBer E snr nbits (GetChannelWidth txVector) phyRate 16 10 11 0
                 else GetFecQamBer E snr nbits (GetChannelWidth txVector) phyRate 16 5 8 31)
           else if GetConstellationSize mode = 64
           then (if GetCodeRate mode = WIFI_CODE_RATE_2_3
                 then GetFecQamBer E snr nbits (GetChannelWidth txVector) phyRate 64 6 1 16
                 else if GetCodeRate mode = WIFI_CODE_RATE_5_6
                 then GetFecQamBer E snr nbits (GetChannelWidth txVector) phyRate 64 4 14 69
                 else GetFecQamBer E snr nbits (GetChannelWidth txVector) phyRate 64 5 8 31)
           else if GetConstellationSize mode = 256
           then (if GetCodeRate mode = WIFI_CODE_RATE_5_6
                 then GetFecQamBer E snr nbits (GetChannelWidth txVector) phyRate 256 4 14 69
                 else GetFecQamBer E snr nbits (GetChannelWidth txVector) phyRate 256 5 8 31)
           else if GetConstellationSize mode = 1024
           then (if GetCodeRate mode = WIFI_CODE_RATE_5_6
                 then GetFecQamBer E snr nbits (GetChannelWidth txVector) phyRate 1024 4 14 69
                 else GetFecQamBer E snr nbits (GetChannelWidth txVector) phyRate 1024 5 8 31)
           else if GetConstellationSize mode = 4096
           then (if GetCodeRate mode = WIFI_CODE_RATE_5_6
                 then GetFecQamBer E snr nbits (GetChannelWidth txVector) phyRate 4096 4 14 69
                 else GetFecQamBer E snr nbits (GetChannelWidth txVector) phyRate 4096 5 8 31)
           else Inr 0
      else Inr 0)"

subsection \<open>The distance-spectrum table of the specification\<close>

text \<open>
  The table of section 4.3 of the specification, written from its rows: for a
  constellation size and a code rate, the free distance, the weight at the free distance
  and, for the two-term entries, the weight at the free distance plus one. A
  constellation size that the table does not list has no entry.
\<close>

definition spec_table :: "16 word \<Rightarrow> WifiCodeRate \<Rightarrow> (32 word \<times> 32 word \<times> 32 word option) option" where
  "spec_table c r =
     (if c = 2 then
        (if r = WIFI_CODE_RATE_1_2 then Some (10, 11, None) else Some (5, 8, None))
      else if c = 4 \<or> c = 16 then
        (if r = WIFI_CODE_RATE_1_2 then Some (10, 11, Some 0) else Some (5, 8, Some 31))
      else if c = 64 then
        (if r = WIFI_CODE_RATE_2_3 then Some (6, 1, Some 16)
         else if r = WIFI_CODE_RATE_5_6 then Some (4, 14, Some 69)
         else Some (5, 8, Some 31))
      else if c = 256 \<or> c = 1024 \<or> c = 4096 then
        (if r = WIFI_CODE_RATE_5_6 then Some (4, 14, Some 69) else Some (5, 8, Some 31))
      else None)"

text \<open>
  Steps 3 to 5 of the algorithm of section 4.4, as a function of the signal spread and
  the bitrate: the binary formula for the single-term entries, the M-ary formula with
  the constellation size for the two-term entries.
\<close>

definition spec_coded_success ::
  "externals \<Rightarrow> WifiMode \<Rightarrow> real \<Rightarrow> 64 word \<Rightarrow> real \<Rightarrow> 64 word \<Rightarrow> failure + real" where
  "spec_coded_success E mode snr nbits signalSpread phyRate =
     (case spec_table (GetConstellationSize mode) (GetCodeRate mode) of
        None \<Rightarrow> Inr 0
      | Some (dFree, adFree, None) \<Rightarrow>
          GetFecBpskBer E snr nbits signalSpread phyRate dFree adFree
      | Some (dFree, adFree, Some adFreePlusOne) \<Rightarrow>
          GetFecQamBer E snr nbits signalSpread phyRate
            (ucast (GetConstellationSize mode)) dFree adFree adFreePlusOne)"

text \<open>
  The sum of \<open>Binomial i ber d\<close> over a list of indices; it fails when a term fails.
\<close>

fun sum_Binomial :: "real \<Rightarrow> 32 word \<Rightarrow> nat list \<Rightarrow> failure + real" where
  "sum_Binomial ber d [] = Inr 0"
| "sum_Binomial ber d (i # js) =
     (case Binomial (of_nat i) ber d of
        Inl e \<Rightarrow> Inl e
      | Inr b \<Rightarrow> (case sum_Binomial ber d js of Inl e \<Rightarrow> Inl e | Inr s \<Rightarrow> Inr (b + s)))"

text \<open>
  The binomial term and the pairwise error probability of section 4.2 of the
  specification, over the natural numbers and the reals.
\<close>

definition binomial_term :: "real \<Rightarrow> nat \<Rightarrow> nat \<Rightarrow> real" where
  "binomial_term p n k = real (n choose k) * p ^ k * (1 - p) ^ (n - k)"

definition pd_value :: "real \<Rightarrow> nat \<Rightarrow> real" where
  "pd_value ber n =
     (if even n
      then (\<Sum>i\<leftarrow>[n div 2 + 1 ..< n]. binomial_term ber n i) + 0.5 * binomial_term ber n (n div 2)
      else (\<Sum>i\<leftarrow>[(n + 1) div 2 ..< n]. binomial_term ber n i))"

subsection \<open>Example inputs\<close>

text \<open>
  Inputs at which the theorems below are instantiated. \<open>ex_erfc\<close> stands for the
  complementary error function of the C library in double precision, of which it has
  the properties that the theorems rely on: the value 1 at 0, values between 0 and 1 on
  non-negative arguments, and the value 0 from 28 on, where the double-precision
  function has underflowed to zero. The rates of \<open>ex_E\<close> are
  300000 bit/s per MHz of channel width, which is 6 Mbit/s at 20 MHz.
\<close>

definition ex_erfc :: "real \<Rightarrow> real" where
  "ex_erfc x = (if x \<le> 0 then 1 else if 28 \<le> x then 0 else 1 / (1 + x) ^ 2)"

definition ex_E :: externals where
  "ex_E = \<lparr> erfc = ex_erfc,
            WIFI_MOD_CLASS_ERP_OFDM = 3,
            SU_STA_ID = 65535,
            GetPhyRate_width = (\<lambda>mode w. of_nat (nat \<lfloor>w * 300000\<rfloor>)),
            GetPhyRate_txVector =
              (\<lambda>mode txVector staId. of_nat (nat \<lfloor>GetChannelWidth txVector * 300000\<rfloor>)) \<rparr>"

definition ex_mode :: "32 word \<Rightarrow> nat \<Rightarrow> 16 word \<Rightarrow> WifiCodeRate \<Rightarrow> WifiMode" where
  "ex_mode u cls c r =
     \<lparr> GetUid = u, GetModulationClass = cls, GetConstellationSize = c, GetCodeRate = r \<rparr>"

definition ex_txVector :: "bool \<Rightarrow> WifiMode \<Rightarrow> real \<Rightarrow> WifiTxVector" where
  "ex_txVector mu m w = \<lparr> IsMu = mu, GetMode = (\<lambda>staId. m), GetChannelWidth = w \<rparr>"

section \<open>Properties\<close>

subsection \<open>The 32-bit factorial\<close>

lemma unat_pred_Suc: "k \<noteq> 0 \<Longrightarrow> unat (k :: 32 word) = Suc (unat (k - 1))"
  using measure_unat [of k] by (simp add: unat_minus_one)

lemma of_nat_fact_step:
  assumes k0: "k \<noteq> 0"
  shows "(of_nat (fact (unat k)) :: 32 word) = k * of_nat (fact (unat (k - 1)))"
proof -
  obtain j where j: "unat k = Suc j" "unat (k - 1) = j"
    using unat_pred_Suc [OF k0] by simp
  have "(fact (unat k) :: nat) = unat k * fact (unat (k - 1))"
    by (simp add: j)
  then have "(of_nat (fact (unat k)) :: 32 word)
      = of_nat (unat k) * of_nat (fact (unat (k - 1)))"
    by (simp only: of_nat_mult)
  then show ?thesis
    by simp
qed

lemma Factorial_loop_fact: "Factorial_loop f k = f * of_nat (fact (unat k))"
proof (induction f k rule: Factorial_loop.induct)
  case (1 f k)
  show ?case
  proof (cases "k = 0")
    case True
    then show ?thesis by (subst Factorial_loop.simps) simp
  next
    case False
    then have pos: "0 < k" by (simp add: word_greater_zero_iff)
    have "Factorial_loop f k = Factorial_loop (f * k) (k - 1)"
      using pos by (subst Factorial_loop.simps) simp
    also have "\<dots> = f * k * of_nat (fact (unat (k - 1)))"
      using pos by (rule 1)
    also have "\<dots> = f * of_nat (fact (unat k))"
      by (simp only: of_nat_fact_step [OF False] mult.assoc)
    finally show ?thesis .
  qed
qed

lemma Factorial_fact: "Factorial k = of_nat (fact (unat k))"
  by (simp add: Factorial_def Factorial_loop_fact)

lemma fact_12_bound: "n \<le> 12 \<Longrightarrow> (fact n :: nat) < 2 ^ 32"
proof -
  assume "n \<le> 12"
  then have "(fact n :: nat) \<le> fact 12" by (rule fact_mono)
  also have "(fact 12 :: nat) < 2 ^ 32" by (simp add: fact_numeral)
  finally show ?thesis .
qed

lemma unat_Factorial: "unat k \<le> 12 \<Longrightarrow> unat (Factorial k) = fact (unat k)"
  using fact_12_bound [of "unat k"] by (simp add: Factorial_fact unat_of_nat)

lemma fact_mult_le: "k \<le> n \<Longrightarrow> (fact k :: nat) * fact (n - k) \<le> fact n"
proof -
  assume kn: "k \<le> n"
  have "(fact k :: nat) * fact (n - k) * 1 \<le> fact k * fact (n - k) * (n choose k)"
    using kn by (intro mult_le_mono2) (simp add: Suc_leI)
  then show ?thesis
    using binomial_fact_lemma [OF kn] by simp
qed

lemma unat_Factorial_den:
  assumes n: "unat n \<le> 12" and kn: "k \<le> n"
  shows "unat (Factorial k * Factorial (n - k)) = fact (unat k) * fact (unat n - unat k)"
proof -
  have le: "unat k \<le> unat n" using kn by (simp add: word_le_nat_alt)
  have sub: "unat (n - k) = unat n - unat k" using kn by (rule unat_sub)
  have fk: "unat (Factorial k) = fact (unat k)"
    using le n by (intro unat_Factorial) simp
  have fnk: "unat (Factorial (n - k)) = fact (unat n - unat k)"
    using n sub unat_Factorial [of "n - k"] by simp
  have "(fact (unat k) :: nat) * fact (unat n - unat k) \<le> fact (unat n)"
    using le by (rule fact_mult_le)
  also have "\<dots> < 2 ^ 32" using n by (rule fact_12_bound)
  finally have "unat (Factorial k) * unat (Factorial (n - k)) < 2 ^ LENGTH(32)"
    by (simp add: fk fnk)
  then have "unat (Factorial k * Factorial (n - k)) = unat (Factorial k) * unat (Factorial (n - k))"
    by (simp only: unat_mult_lem)
  then show ?thesis by (simp add: fk fnk)
qed

lemma Binomial_exact:
  assumes n: "unat n \<le> 12" and kn: "k \<le> n"
  shows "Binomial k p n
    = Inr (real (unat n choose unat k) * p ^ unat k * (1 - p) ^ (unat n - unat k))"
proof -
  have le: "unat k \<le> unat n" using kn by (simp add: word_le_nat_alt)
  have sub: "unat (n - k) = unat n - unat k" using kn by (rule unat_sub)
  have den: "unat (Factorial k * Factorial (n - k)) = fact (unat k) * fact (unat n - unat k)"
    using n kn by (rule unat_Factorial_den)
  have "unat (Factorial k * Factorial (n - k)) \<noteq> 0"
    by (simp add: den)
  then have nz: "Factorial k * Factorial (n - k) \<noteq> 0"
    by (simp add: unat_eq_0)
  have "unat (Factorial n div (Factorial k * Factorial (n - k)))
      = fact (unat n) div (fact (unat k) * fact (unat n - unat k))"
    by (simp only: unat_div den unat_Factorial [OF n])
  also have "\<dots> = unat n choose unat k"
    using binomial_fact' [OF le] by simp
  finally have quot:
    "unat (Factorial n div (Factorial k * Factorial (n - k))) = unat n choose unat k" .
  show ?thesis
    unfolding Binomial_def Let_def using nz by (simp only: quot sub if_False)
qed

subsection \<open>The binomial term is exact up to n = 12\<close>

text \<open>
  Claim C1, as stated, asks that \<open>Binomial k p n\<close> be \<open>C(n,k) * p^k * (1-p)^(n-k)\<close>
  for every \<open>n\<close> up to a few hundred. At \<open>n = 13\<close> the 32-bit factorial has wrapped
  around: \<open>Factorial 13\<close> is \<open>13! mod 2^32 = 1932053504\<close>, the quotient by
  \<open>Factorial 1 * Factorial 12\<close> is 4, and \<open>C(13,1)\<close> is 13.
\<close>

theorem Binomial_13_counterexample:
  "Binomial 1 (1/2) 13 \<noteq> Inr (real (13 choose 1) * (1/2) ^ 1 * (1 - 1/2) ^ (13 - 1))"
  by (simp add: Binomial_def Factorial_fact fact_numeral Let_def power_divide)

text \<open>
  Claim C1, amended: for every \<open>n \<le> 12\<close>, every \<open>k \<le> n\<close> and every \<open>p\<close>,
  \<open>Binomial k p n\<close> returns, without a division by zero, the product of the binomial
  coefficient \<open>C(n,k)\<close>, \<open>p^k\<close> and \<open>(1-p)^(n-k)\<close>; the coefficient that the 32-bit
  arithmetic computes is the exact one. This covers the largest distance of the
  table, 11.
\<close>

theorem Binomial_exact_upto_12:
  assumes "unat n \<le> 12" and "k \<le> n"
  shows "Binomial k p n
    = Inr (real (unat n choose unat k) * p ^ unat k * (1 - p) ^ (unat n - unat k))"
  using assms by (rule Binomial_exact)

theorem Binomial_exact_upto_12_witness:
  "unat (11 :: 32 word) \<le> 12 \<and> (5 :: 32 word) \<le> 11 \<and>
   Binomial 5 (1/4) 11 = Inr (462 * (1/4) ^ 5 * (3/4) ^ 6)"
proof -
  have c: "(11 :: nat) choose 5 = 462"
    by (simp add: binomial_fact' fact_numeral)
  show ?thesis
    using Binomial_exact_upto_12 [of 11 5 "1/4"] by (simp add: c)
qed

subsection \<open>The pairwise error probability as a sum\<close>

lemma Binomial_failure: "Binomial k p n = Inl e \<Longrightarrow> e = DivisionByZero"
  by (simp add: Binomial_def Let_def split: if_splits)

lemma sum_Binomial_failure: "sum_Binomial ber d js = Inl e \<Longrightarrow> e = DivisionByZero"
  by (induction js) (auto split: sum.splits dest: Binomial_failure)

lemma unat_inc: "i < dend \<Longrightarrow> unat (i + 1) = Suc (unat i)" for i dend :: "32 word"
  by unat_arith

lemma CalculatePd_loop_sum:
  "CalculatePd_loop ber d i dend pd =
     (case sum_Binomial ber d [unat i ..< unat dend] of
        Inl e \<Rightarrow> Inl e
      | Inr s \<Rightarrow> Inr (pd + s))"
proof (induction ber d i dend pd rule: CalculatePd_loop.induct)
  case (1 ber d i dend pd)
  show ?case
  proof (cases "i < dend")
    case False
    then have "unat dend \<le> unat i" by (simp add: word_less_nat_alt)
    with False show ?thesis
      by (subst CalculatePd_loop.simps) simp
  next
    case True
    then have lt: "unat i < unat dend" by (simp add: word_less_nat_alt)
    have upt: "[unat i ..< unat dend] = unat i # [unat (i + 1) ..< unat dend]"
      using lt by (simp add: upt_conv_Cons unat_inc [OF True])
    show ?thesis
    proof (cases "Binomial i ber d")
      case (Inl e)
      with True show ?thesis
        by (subst CalculatePd_loop.simps) (simp add: upt)
    next
      case (Inr b)
      have "CalculatePd_loop ber d i dend pd = CalculatePd_loop ber d (i + 1) dend (pd + b)"
        using True Inr by (subst CalculatePd_loop.simps) simp
      also have "\<dots> = (case sum_Binomial ber d [unat (i + 1) ..< unat dend] of
                          Inl e \<Rightarrow> Inl e | Inr s \<Rightarrow> Inr (pd + b + s))"
        using True Inr by (rule 1)
      also have "\<dots> = (case sum_Binomial ber d [unat i ..< unat dend] of
                          Inl e \<Rightarrow> Inl e | Inr s \<Rightarrow> Inr (pd + s))"
        by (simp add: upt Inr add.assoc split: sum.splits)
      finally show ?thesis .
    qed
  qed
qed

lemma dvd_fact_34: "(2::nat) ^ 32 dvd fact 34"
  by (simp add: fact_numeral)

lemma Factorial_zero: "34 \<le> unat k \<Longrightarrow> Factorial k = 0"
proof -
  assume "34 \<le> unat k"
  then have "(fact 34 :: nat) dvd fact (unat k)" by (rule fact_dvd)
  with dvd_fact_34 have "(2::nat) ^ 32 dvd fact (unat k)"
    by (rule dvd_trans)
  then have "(2::nat) ^ LENGTH(32) dvd fact (unat k)"
    by simp
  then show ?thesis
    by (simp only: Factorial_fact word_of_nat_eq_0_iff)
qed

lemma Binomial_fails_left: "34 \<le> unat k \<Longrightarrow> Binomial k p n = Inl DivisionByZero"
  by (simp add: Binomial_def Factorial_zero)

lemma Binomial_fails_right: "34 \<le> unat (n - k) \<Longrightarrow> Binomial k p n = Inl DivisionByZero"
  by (simp add: Binomial_def Factorial_zero)

lemma sum_Binomial_Cons_fails:
  "Binomial (of_nat i) ber d = Inl DivisionByZero \<Longrightarrow> sum_Binomial ber d (i # js) = Inl DivisionByZero"
  by simp

lemma CalculatePdOdd_max:
  fixes d :: "32 word"
  assumes "d = - 1"
  shows "CalculatePdOdd ber d = sum_Binomial ber d [(unat d + 1) div 2 ..< unat d]"
proof -
  have ud: "unat d = 4294967295"
    using assms by (simp add: unsigned_minus_1_eq_mask mask_eq_exp_minus_1)
  have odd: "d mod 2 = 1"
    using assms by simp
  have start: "(d + 1) div 2 = 0"
    using assms by simp
  have l: "CalculatePdOdd ber d = Inl DivisionByZero"
  proof -
    have "[0 ..< unat d] = 0 # [Suc 0 ..< unat d]"
      by (rule upt_conv_Cons) (simp add: ud)
    moreover have "Binomial (of_nat 0) ber d = Inl DivisionByZero"
      by (rule Binomial_fails_right) (simp add: ud)
    ultimately have "sum_Binomial ber d [0 ..< unat d] = Inl DivisionByZero"
      by (simp only: sum_Binomial_Cons_fails)
    then show ?thesis
      by (simp add: CalculatePdOdd_def CalculatePd_loop_sum odd start)
  qed
  have r: "sum_Binomial ber d [(unat d + 1) div 2 ..< unat d] = Inl DivisionByZero"
  proof -
    have half: "(unat d + 1) div 2 = 2147483648"
      by (simp add: ud)
    have "[2147483648 ..< unat d] = 2147483648 # [Suc 2147483648 ..< unat d]"
      by (rule upt_conv_Cons) (simp add: ud)
    moreover have "Binomial (of_nat 2147483648) ber d = Inl DivisionByZero"
      by (rule Binomial_fails_left) simp
    ultimately show ?thesis
      by (simp only: half sum_Binomial_Cons_fails)
  qed
  show ?thesis by (simp only: l r)
qed

lemma word_mod_2_even: "d mod 2 = 0 \<longleftrightarrow> even (unat d)" for d :: "32 word"
proof -
  have "d mod 2 = 0 \<longleftrightarrow> unat (d mod 2) = 0"
    by (simp add: unat_eq_0)
  also have "\<dots> \<longleftrightarrow> unat d mod 2 = 0"
    by (simp add: unat_mod)
  finally show ?thesis by presburger
qed

lemma word_mod_2_cases: "d mod 2 \<noteq> 0 \<longleftrightarrow> d mod 2 = 1" for d :: "32 word"
proof -
  have "unat (d mod 2) = unat d mod 2" by (simp add: unat_mod)
  then have "unat (d mod 2) = 0 \<or> unat (d mod 2) = 1" by presburger
  then have "d mod 2 = 0 \<or> d mod 2 = 1"
    by (auto simp: word_unat_eq_iff)
  then show ?thesis by auto
qed

lemma sum_case_id: "(case x of Inl e \<Rightarrow> Inl e | Inr s \<Rightarrow> Inr (0 + s)) = (x :: failure + real)"
  by (cases x) simp_all

lemma CalculatePdOdd_sum:
  assumes odd: "d mod 2 = 1"
  shows "CalculatePdOdd ber d = sum_Binomial ber d [(unat d + 1) div 2 ..< unat d]"
proof (cases "d = - 1")
  case True
  then show ?thesis by (rule CalculatePdOdd_max)
next
  case False
  then have "unat (d + 1) = unat d + 1"
    by (metis Suc_eq_plus1 add.commute unatSuc add_eq_0_iff_both_eq_0 eq_neg_iff_add_eq_0)
  then have "unat ((d + 1) div 2) = (unat d + 1) div 2"
    by (simp add: unat_div)
  then show ?thesis
    using odd by (simp add: CalculatePdOdd_def CalculatePd_loop_sum sum_case_id)
qed

lemma CalculatePdEven_sum:
  assumes even: "d mod 2 = 0"
  shows "CalculatePdEven ber d =
    (case sum_Binomial ber d [unat d div 2 + 1 ..< unat d] of
       Inl e \<Rightarrow> Inl e
     | Inr s \<Rightarrow> (case Binomial (d div 2) ber d of
                   Inl e \<Rightarrow> Inl e
                 | Inr b \<Rightarrow> Inr (s + 0.5 * b)))"
proof -
  have "unat d < 2 ^ 32" using unsigned_less [of d] by simp
  then have "unat (d div 2) + unat (1 :: 32 word) < 2 ^ LENGTH(32)"
    by (simp add: unat_div)
  then have "unat (d div 2 + 1) = unat (d div 2) + unat (1 :: 32 word)"
    by (simp only: unat_add_lem)
  then have "unat (d div 2 + 1) = unat d div 2 + 1"
    by (simp add: unat_div)
  then show ?thesis
    using even by (simp add: CalculatePdEven_def CalculatePd_loop_sum sum_case_id)
qed

text \<open>
  Claim C6: for every odd \<open>d\<close>, \<open>CalculatePd ber d\<close> is the sum of
  \<open>Binomial i ber d\<close> for \<open>i\<close> from \<open>(d+1)/2\<close> to \<open>d-1\<close>; for every even \<open>d\<close> it
  is the sum for \<open>i\<close> from \<open>d/2+1\<close> to \<open>d-1\<close> plus half of \<open>Binomial (d/2) ber d\<close>.
  Both sides fail together when a term divides by zero.
\<close>

theorem CalculatePd_sum:
  "(odd (unat d) \<longrightarrow>
      CalculatePd ber d = sum_Binomial ber d [(unat d + 1) div 2 ..< unat d]) \<and>
   (even (unat d) \<longrightarrow>
      CalculatePd ber d =
        (case sum_Binomial ber d [unat d div 2 + 1 ..< unat d] of
           Inl e \<Rightarrow> Inl e
         | Inr s \<Rightarrow> (case Binomial (d div 2) ber d of
                       Inl e \<Rightarrow> Inl e
                     | Inr b \<Rightarrow> Inr (s + 0.5 * b))))"
proof (cases "d mod 2 = 0")
  case True
  then have "even (unat d)" by (simp add: word_mod_2_even)
  moreover have "CalculatePd ber d = CalculatePdEven ber d"
    using True by (simp add: CalculatePd_def)
  ultimately show ?thesis
    by (simp only: CalculatePdEven_sum [OF True]) simp
next
  case False
  then have one: "d mod 2 = 1" by (simp add: word_mod_2_cases)
  from False have "odd (unat d)" by (simp add: word_mod_2_even)
  moreover have "CalculatePd ber d = CalculatePdOdd ber d"
    using False by (simp add: CalculatePd_def)
  ultimately show ?thesis
    by (simp only: CalculatePdOdd_sum [OF one]) simp
qed

theorem CalculatePd_sum_witness:
  "odd (unat (5 :: 32 word)) \<and>
   CalculatePd (1/4) 5 = sum_Binomial (1/4) 5 [3 ..< 5] \<and>
   even (unat (10 :: 32 word)) \<and>
   CalculatePd (1/4) 10 =
     (case sum_Binomial (1/4) 10 [6 ..< 10] of
        Inl e \<Rightarrow> Inl e
      | Inr s \<Rightarrow> (case Binomial 5 (1/4) 10 of
                    Inl e \<Rightarrow> Inl e
                  | Inr b \<Rightarrow> Inr (s + 0.5 * b)))"
proof -
  have five: "unat (5 :: 32 word) = 5" and ten: "unat (10 :: 32 word) = 10"
    by simp_all
  have h5: "(5 + 1) div 2 = (3 :: nat)" and h10: "10 div 2 + 1 = (6 :: nat)"
    and w10: "(10 :: 32 word) div 2 = 5"
    by simp_all
  have o: "odd (5 :: nat)" and e: "even (10 :: nat)"
    by simp_all
  show ?thesis
    using CalculatePd_sum [of 5 "1/4"] CalculatePd_sum [of 10 "1/4"]
    unfolding five ten h5 h10 w10 using o e by blast
qed

subsection \<open>The pairwise error probability for distances up to 12\<close>

lemma Binomial_term: 
  assumes "unat n \<le> 12" and "k \<le> n"
  shows "Binomial k p n = Inr (binomial_term p (unat n) (unat k))"
  using Binomial_exact [OF assms] by (simp add: binomial_term_def)

lemma Binomial_of_nat:
  assumes d: "unat d \<le> 12" and i: "i \<le> unat d"
  shows "Binomial (of_nat i) p d = Inr (binomial_term p (unat d) i)"
proof -
  have u: "unat (of_nat i :: 32 word) = i"
    using d i by (simp add: unat_of_nat)
  then have "(of_nat i :: 32 word) \<le> d"
    using i by (simp add: word_le_nat_alt)
  from Binomial_term [OF d this] show ?thesis
    by (simp add: u)
qed

lemma sum_Binomial_exact:
  assumes d: "unat d \<le> 12"
  shows "(\<And>i. i \<in> set js \<Longrightarrow> i \<le> unat d) \<Longrightarrow>
    sum_Binomial ber d js = Inr (\<Sum>i\<leftarrow>js. binomial_term ber (unat d) i)"
proof (induction js)
  case Nil
  show ?case by simp
next
  case (Cons j js)
  have "Binomial (of_nat j) ber d = Inr (binomial_term ber (unat d) j)"
    using d by (rule Binomial_of_nat) (simp add: Cons.prems)
  moreover have "sum_Binomial ber d js = Inr (\<Sum>i\<leftarrow>js. binomial_term ber (unat d) i)"
    by (rule Cons.IH) (simp add: Cons.prems)
  ultimately show ?case by simp
qed

lemma CalculatePd_exact:
  assumes d: "unat d \<le> 12"
  shows "CalculatePd ber d = Inr (pd_value ber (unat d))"
proof (cases "d mod 2 = 0")
  case True
  then have ev: "even (unat d)" by (simp add: word_mod_2_even)
  have half: "unat (d div 2) = unat d div 2"
    by (simp add: unat_div)
  then have "d div 2 \<le> d"
    by (simp add: word_le_nat_alt)
  from Binomial_term [OF d this]
  have b: "Binomial (d div 2) ber d = Inr (binomial_term ber (unat d) (unat d div 2))"
    by (simp add: half)
  have s: "sum_Binomial ber d [unat d div 2 + 1 ..< unat d]
      = Inr (\<Sum>i\<leftarrow>[unat d div 2 + 1 ..< unat d]. binomial_term ber (unat d) i)"
    using d by (rule sum_Binomial_exact) simp
  have "CalculatePd ber d = CalculatePdEven ber d"
    using True by (simp add: CalculatePd_def)
  also have "\<dots> = Inr ((\<Sum>i\<leftarrow>[unat d div 2 + 1 ..< unat d]. binomial_term ber (unat d) i)
      + 0.5 * binomial_term ber (unat d) (unat d div 2))"
    unfolding CalculatePdEven_sum [OF True] s b by simp
  finally show ?thesis
    using ev by (simp add: pd_value_def)
next
  case False
  then have one: "d mod 2 = 1" by (simp add: word_mod_2_cases)
  from False have od: "odd (unat d)" by (simp add: word_mod_2_even)
  have s: "sum_Binomial ber d [(unat d + 1) div 2 ..< unat d]
      = Inr (\<Sum>i\<leftarrow>[(unat d + 1) div 2 ..< unat d]. binomial_term ber (unat d) i)"
    using d by (rule sum_Binomial_exact) simp
  have "CalculatePd ber d = CalculatePdOdd ber d"
    using False by (simp add: CalculatePd_def)
  also have "\<dots> = Inr (\<Sum>i\<leftarrow>[(unat d + 1) div 2 ..< unat d]. binomial_term ber (unat d) i)"
    unfolding CalculatePdOdd_sum [OF one] s by simp
  finally show ?thesis
    using od by (simp add: pd_value_def)
qed

lemma binomial_term_nonneg: "0 \<le> p \<Longrightarrow> p \<le> 1 \<Longrightarrow> 0 \<le> binomial_term p n k"
  by (simp add: binomial_term_def)

lemma pd_value_nonneg:
  assumes "0 \<le> ber" and "ber \<le> 1"
  shows "0 \<le> pd_value ber n"
proof -
  have "0 \<le> (\<Sum>i\<leftarrow>js. binomial_term ber n i)" for js
    using assms by (intro sum_list_nonneg) (auto simp: binomial_term_nonneg)
  moreover have "0 \<le> binomial_term ber n (n div 2)"
    using assms by (rule binomial_term_nonneg)
  ultimately show ?thesis
    by (simp add: pd_value_def add_nonneg_nonneg)
qed

subsection \<open>The coded success rates for the distances of the table\<close>

lemma success_power_range:
  assumes "0 \<le> pmu"
  shows "0 \<le> (1 - min pmu 1) ^ n \<and> (1 - min pmu (1::real)) ^ n \<le> 1"
proof -
  have "0 \<le> 1 - min pmu 1" and "1 - min pmu 1 \<le> 1"
    using assms by simp_all
  then show ?thesis
    by (simp add: power_le_one)
qed

lemma GetFecBpskBer_value:
  assumes "unat dFree \<le> 12"
  shows "GetFecBpskBer E snr nbits signalSpread phyRate dFree adFree =
    (let ber = GetBpskBer E snr signalSpread phyRate
     in if ber = 0 then Inr 1
        else Inr ((1 - min (real (unat adFree) * pd_value ber (unat dFree)) 1) ^ unat nbits))"
  by (simp add: GetFecBpskBer_def Let_def CalculatePd_exact [OF assms])

lemma unat_inc_le: "unat d \<le> 11 \<Longrightarrow> unat (d + 1) = unat d + 1" for d :: "32 word"
proof -
  assume "unat d \<le> 11"
  then have "unat d + unat (1 :: 32 word) < 2 ^ LENGTH(32)"
    by simp
  then have "unat (d + 1) = unat d + unat (1 :: 32 word)"
    by (simp only: unat_add_lem)
  then show ?thesis by simp
qed

lemma weight_pd_nonneg:
  assumes "0 \<le> ber" and "ber \<le> 1"
  shows "0 \<le> real (unat a) * pd_value ber n"
proof -
  have "0 \<le> real (unat a)" by (rule of_nat_0_le_iff)
  moreover have "0 \<le> pd_value ber n" using assms by (rule pd_value_nonneg)
  ultimately show ?thesis by (rule mult_nonneg_nonneg)
qed

lemma GetFecQamBer_value:
  assumes "unat dFree \<le> 11"
  shows "GetFecQamBer E snr nbits signalSpread phyRate m dFree adFree adFreePlusOne =
    (let ber = GetQamBer E snr m signalSpread phyRate
     in if ber = 0 then Inr 1
        else Inr ((1 - min (real (unat adFree) * pd_value ber (unat dFree)
                            + real (unat adFreePlusOne) * pd_value ber (unat dFree + 1)) 1)
                  ^ unat nbits))"
proof -
  have a: "unat dFree \<le> 12" using assms by simp
  have b: "unat (dFree + 1) \<le> 12" using assms by (simp add: unat_inc_le)
  show ?thesis
    by (simp add: GetFecQamBer_def Let_def CalculatePd_exact [OF a] CalculatePd_exact [OF b]
        unat_inc_le [OF assms])
qed

lemma GetFecBpskBer_range:
  assumes d: "unat dFree \<le> 12"
    and ber: "0 \<le> GetBpskBer E snr signalSpread phyRate" "GetBpskBer E snr signalSpread phyRate \<le> 1"
  shows "\<exists>r. GetFecBpskBer E snr nbits signalSpread phyRate dFree adFree = Inr r \<and> 0 \<le> r \<and> r \<le> 1"
proof -
  have "0 \<le> real (unat adFree) * pd_value (GetBpskBer E snr signalSpread phyRate) (unat dFree)"
    using ber by (rule weight_pd_nonneg)
  from success_power_range [OF this] show ?thesis
    by (simp add: GetFecBpskBer_value [OF d] Let_def)
qed

lemma GetFecQamBer_range:
  assumes d: "unat dFree \<le> 11"
    and ber: "0 \<le> GetQamBer E snr m signalSpread phyRate" "GetQamBer E snr m signalSpread phyRate \<le> 1"
  shows "\<exists>r. GetFecQamBer E snr nbits signalSpread phyRate m dFree adFree adFreePlusOne = Inr r
    \<and> 0 \<le> r \<and> r \<le> 1"
proof -
  let ?ber = "GetQamBer E snr m signalSpread phyRate"
  have "0 \<le> real (unat adFree) * pd_value ?ber (unat dFree)"
    using ber by (rule weight_pd_nonneg)
  moreover have "0 \<le> real (unat adFreePlusOne) * pd_value ?ber (unat dFree + 1)"
    using ber by (rule weight_pd_nonneg)
  ultimately have "0 \<le> real (unat adFree) * pd_value ?ber (unat dFree)
      + real (unat adFreePlusOne) * pd_value ?ber (unat dFree + 1)"
    by (rule add_nonneg_nonneg)
  from success_power_range [OF this] show ?thesis
    by (simp add: GetFecQamBer_value [OF d] Let_def)
qed

lemma GetFecBpskBer_total:
  "unat dFree \<le> 12 \<Longrightarrow> \<not> isl (GetFecBpskBer E snr nbits signalSpread phyRate dFree adFree)"
  by (simp add: GetFecBpskBer_value Let_def)

lemma GetFecQamBer_total:
  "unat dFree \<le> 11 \<Longrightarrow>
   \<not> isl (GetFecQamBer E snr nbits signalSpread phyRate m dFree adFree adFreePlusOne)"
  by (simp add: GetFecQamBer_value Let_def)

lemma GetFecBpskBer_nbits_0:
  "unat dFree \<le> 12 \<Longrightarrow> GetFecBpskBer E snr 0 signalSpread phyRate dFree adFree = Inr 1"
  by (simp add: GetFecBpskBer_value Let_def)

lemma GetFecQamBer_nbits_0:
  "unat dFree \<le> 11 \<Longrightarrow>
   GetFecQamBer E snr 0 signalSpread phyRate m dFree adFree adFreePlusOne = Inr 1"
  by (simp add: GetFecQamBer_value Let_def)

subsection \<open>The raw bit error rates are probabilities\<close>

lemma EbNo_nonneg:
  "0 \<le> snr \<Longrightarrow> 0 \<le> signalSpread \<Longrightarrow> 0 \<le> snr * signalSpread * 1000000 / real (unat phyRate)"
  by (simp del: of_nat_unat)

lemma GetBpskBer_range:
  assumes erfc: "\<forall>x\<ge>0. 0 \<le> erfc E x \<and> erfc E x \<le> 1"
    and snr: "0 \<le> snr" and w: "0 \<le> signalSpread"
  shows "0 \<le> GetBpskBer E snr signalSpread phyRate \<and> GetBpskBer E snr signalSpread phyRate \<le> 1"
proof -
  let ?z = "sqrt (snr * signalSpread * 1000000 / real (unat phyRate))"
  have "0 \<le> ?z" using EbNo_nonneg [OF snr w] by simp
  with erfc have "0 \<le> erfc E ?z \<and> erfc E ?z \<le> 1" by blast
  then show ?thesis
    by (simp add: GetBpskBer_def Let_def)
qed

lemma GetQamBer_range:
  assumes erfc: "\<forall>x\<ge>0. 0 \<le> erfc E x \<and> erfc E x \<le> 1"
    and snr: "0 \<le> snr" and w: "0 \<le> signalSpread" and m: "2 \<le> unat m"
  shows "0 \<le> GetQamBer E snr m signalSpread phyRate \<and> GetQamBer E snr m signalSpread phyRate \<le> 1"
proof -
  define M where "M = real (unat m)"
  define EbNo where "EbNo = snr * signalSpread * 1000000 / real (unat phyRate)"
  define z where "z = sqrt ((1.5 * log 2 M * EbNo) / (M - 1.0))"
  define z1 where "z1 = (1.0 - 1.0 / sqrt M) * erfc E z"
  have M2: "2 \<le> M" using m by (simp add: M_def del: of_nat_unat)
  have lg: "1 \<le> log 2 M"
    using M2 by (simp add: le_log_iff)
  have E0: "0 \<le> EbNo" unfolding EbNo_def using snr w by (rule EbNo_nonneg)
  have "0 \<le> (1.5 * log 2 M * EbNo) / (M - 1.0)"
    using lg E0 M2 by (intro divide_nonneg_nonneg mult_nonneg_nonneg) simp_all
  then have "0 \<le> z" by (simp add: z_def)
  with erfc have e: "0 \<le> erfc E z" "erfc E z \<le> 1" by blast+
  have "1 \<le> sqrt M" using M2 by simp
  then have c: "0 \<le> 1.0 - 1.0 / sqrt M" "1.0 - 1.0 / sqrt M \<le> 1"
    by simp_all
  have z1: "0 \<le> z1" "z1 \<le> 1"
    unfolding z1_def using c e by (simp_all add: mult_le_one)
  then have "0 \<le> 1 - z1" "1 - z1 \<le> 1" by simp_all
  then have "0 \<le> (1 - z1) ^ 2" "(1 - z1) ^ 2 \<le> 1"
    by (simp_all add: power_le_one)
  then have z2: "0 \<le> 1 - (1 - z1) ^ 2" "1 - (1 - z1) ^ 2 \<le> 1" by simp_all
  have "0 \<le> (1 - (1 - z1) ^ 2) / log 2 M"
    using z2 lg by (intro divide_nonneg_nonneg) simp_all
  moreover have "(1 - (1 - z1) ^ 2) / log 2 M \<le> 1"
  proof -
    have "1 - (1 - z1) ^ 2 \<le> log 2 M" using z2(2) lg by linarith
    moreover have "0 < log 2 M" using lg by linarith
    ultimately show ?thesis by (simp only: divide_le_eq_1_pos)
  qed
  moreover have "GetQamBer E snr m signalSpread phyRate = (1 - (1 - z1) ^ 2) / log 2 M"
    by (simp only: GetQamBer_def Let_def z1_def z_def EbNo_def M_def)
  ultimately show ?thesis by simp
qed

subsection \<open>The dispatch against the table of the specification\<close>

lemma DoGet_ineligible:
  "GetModulationClass mode < WIFI_MOD_CLASS_ERP_OFDM E \<Longrightarrow>
   DoGetChunkSuccessRate E mode txVector snr nbits numRxAntennas field staId = Inr 0"
  by (simp add: DoGetChunkSuccessRate_def)

lemma DoGet_refines:
  "DoGetChunkSuccessRate E mode txVector snr nbits numRxAntennas field staId =
     (if WIFI_MOD_CLASS_ERP_OFDM E \<le> GetModulationClass mode
      then spec_coded_success E mode snr nbits (GetChannelWidth txVector)
             (DoGetChunkSuccessRate_phyRate E mode txVector staId)
      else Inr 0)"
  by (simp add: DoGetChunkSuccessRate_def spec_coded_success_def spec_table_def Let_def)

lemma spec_table_distance:
  "spec_table c r = Some (dFree, adFree, x) \<Longrightarrow> unat dFree \<le> 11"
  by (auto simp: spec_table_def split: if_splits)

lemma spec_table_size:
  "spec_table c r = Some (dFree, adFree, Some a1) \<Longrightarrow> 2 \<le> unat (ucast c :: 32 word)"
  by (auto simp: spec_table_def split: if_splits)

lemma spec_coded_success_total: "\<not> isl (spec_coded_success E mode snr nbits w r)"
proof (cases "spec_table (GetConstellationSize mode) (GetCodeRate mode)")
  case None
  then show ?thesis by (simp add: spec_coded_success_def)
next
  case (Some t)
  obtain dFree adFree x where t: "t = (dFree, adFree, x)" by (cases t)
  have d: "unat dFree \<le> 11" using Some t spec_table_distance by blast
  then have d': "unat dFree \<le> 12" by simp
  show ?thesis
    using Some t GetFecBpskBer_total [OF d'] GetFecQamBer_total [OF d]
    by (cases x) (simp_all add: spec_coded_success_def)
qed

lemma DoGet_total:
  "\<not> isl (DoGetChunkSuccessRate E mode txVector snr nbits numRxAntennas field staId)"
  by (simp add: DoGet_refines spec_coded_success_total)

subsection \<open>Modes outside the coded-OFDM model\<close>

text \<open>
  Claim C8: for every mode whose modulation class is below ERP-OFDM, whatever the
  transmission vector, the SNR, the bit count and the station,
  \<open>DoGetChunkSuccessRate\<close> returns 0.
\<close>

theorem DoGetChunkSuccessRate_ineligible:
  assumes "GetModulationClass mode < WIFI_MOD_CLASS_ERP_OFDM E"
  shows "DoGetChunkSuccessRate E mode txVector snr nbits numRxAntennas field staId = Inr 0"
  using assms by (simp add: DoGetChunkSuccessRate_def)

theorem DoGetChunkSuccessRate_ineligible_witness:
  "GetModulationClass (ex_mode 1 1 2 WIFI_CODE_RATE_1_2) < WIFI_MOD_CLASS_ERP_OFDM ex_E \<and>
   DoGetChunkSuccessRate ex_E (ex_mode 1 1 2 WIFI_CODE_RATE_1_2)
     (ex_txVector False (ex_mode 1 1 2 WIFI_CODE_RATE_1_2) 22) 10 1000 1 WIFI_PPDU_FIELD_DATA 0
     = Inr 0"
proof -
  have h: "GetModulationClass (ex_mode 1 1 2 WIFI_CODE_RATE_1_2) < WIFI_MOD_CLASS_ERP_OFDM ex_E"
    by (simp add: ex_mode_def ex_E_def)
  from h DoGetChunkSuccessRate_ineligible [OF h] show ?thesis by simp
qed

subsection \<open>The coefficients of two rows of the table\<close>

text \<open>
  Claim C9: for a mode of an eligible class, constellation size 2 with code rate 1/2 is
  answered by \<open>GetFecBpskBer\<close> with free distance 10 and weight 11, and constellation
  size 64 with code rate 5/6 by \<open>GetFecQamBer\<close> with free distance 4 and weights 14
  and 69.
\<close>

theorem table_rows_used:
  assumes "WIFI_MOD_CLASS_ERP_OFDM E \<le> GetModulationClass mode"
  shows "(GetConstellationSize mode = 2 \<and> GetCodeRate mode = WIFI_CODE_RATE_1_2 \<longrightarrow>
            DoGetChunkSuccessRate E mode txVector snr nbits numRxAntennas field staId
            = GetFecBpskBer E snr nbits (GetChannelWidth txVector)
                (DoGetChunkSuccessRate_phyRate E mode txVector staId) 10 11) \<and>
         (GetConstellationSize mode = 64 \<and> GetCodeRate mode = WIFI_CODE_RATE_5_6 \<longrightarrow>
            DoGetChunkSuccessRate E mode txVector snr nbits numRxAntennas field staId
            = GetFecQamBer E snr nbits (GetChannelWidth txVector)
                (DoGetChunkSuccessRate_phyRate E mode txVector staId) 64 4 14 69)"
  using assms by (simp add: DoGetChunkSuccessRate_def Let_def)

theorem table_rows_used_witness:
  "DoGetChunkSuccessRate ex_E (ex_mode 7 4 2 WIFI_CODE_RATE_1_2)
     (ex_txVector False (ex_mode 7 4 2 WIFI_CODE_RATE_1_2) 20) 10 1000 1 WIFI_PPDU_FIELD_DATA 0
   = GetFecBpskBer ex_E 10 1000 20 6000000 10 11 \<and>
   DoGetChunkSuccessRate ex_E (ex_mode 9 5 64 WIFI_CODE_RATE_5_6)
     (ex_txVector False (ex_mode 9 5 64 WIFI_CODE_RATE_5_6) 20) 10 1000 1 WIFI_PPDU_FIELD_DATA 0
   = GetFecQamBer ex_E 10 1000 20 6000000 64 4 14 69"
proof -
  let ?bpsk = "ex_mode 7 4 2 WIFI_CODE_RATE_1_2"
  let ?qam = "ex_mode 9 5 64 WIFI_CODE_RATE_5_6"
  have r: "DoGetChunkSuccessRate_phyRate ex_E m (ex_txVector False m 20) 0 = 6000000" for m
    by (simp add: DoGetChunkSuccessRate_phyRate_def ex_E_def ex_txVector_def)
  have w: "GetChannelWidth (ex_txVector False m 20) = 20" for m
    by (simp add: ex_txVector_def)
  have "WIFI_MOD_CLASS_ERP_OFDM ex_E \<le> GetModulationClass ?bpsk"
    by (simp add: ex_mode_def ex_E_def)
  from table_rows_used [OF this, of "ex_txVector False ?bpsk 20" 10 1000 1 WIFI_PPDU_FIELD_DATA 0]
  have a: "DoGetChunkSuccessRate ex_E ?bpsk (ex_txVector False ?bpsk 20) 10 1000 1
      WIFI_PPDU_FIELD_DATA 0 = GetFecBpskBer ex_E 10 1000 20 6000000 10 11"
    unfolding r w by (simp add: ex_mode_def)
  have "WIFI_MOD_CLASS_ERP_OFDM ex_E \<le> GetModulationClass ?qam"
    by (simp add: ex_mode_def ex_E_def)
  from table_rows_used [OF this, of "ex_txVector False ?qam 20" 10 1000 1 WIFI_PPDU_FIELD_DATA 0]
  have b: "DoGetChunkSuccessRate ex_E ?qam (ex_txVector False ?qam 20) 10 1000 1
      WIFI_PPDU_FIELD_DATA 0 = GetFecQamBer ex_E 10 1000 20 6000000 64 4 14 69"
    unfolding r w by (simp add: ex_mode_def)
  from a b show ?thesis by (rule conjI)
qed

subsection \<open>The bitrate of the dispatch\<close>

text \<open>
  Claim C4, as stated, has the bitrate of the header case computed at the channel width
  clamped to 20 MHz. The source replaces the width by 20 MHz only when it is at least
  40 MHz: at a width of 22 MHz the rate is asked for 22 MHz, not for 20 MHz.
\<close>

theorem phyRate_clamp_counterexample:
  "DoGetChunkSuccessRate_phyRate ex_E (ex_mode 7 4 2 WIFI_CODE_RATE_1_2)
     (ex_txVector False (ex_mode 8 4 4 WIFI_CODE_RATE_1_2) 22) 0
   \<noteq> GetPhyRate_width ex_E (ex_mode 7 4 2 WIFI_CODE_RATE_1_2) (min 22 20)"
  by (simp add: DoGetChunkSuccessRate_phyRate_def ex_E_def ex_mode_def ex_txVector_def)

text \<open>
  Claim C4, amended: when the transmission is multi-user and the station is the
  single-user sentinel, or the mode differs from the mode of the transmission for the
  station, the bitrate is the rate of the mode at 20 MHz if the channel width is at
  least 40 MHz and at the channel width itself if it is below 40 MHz; in every other
  case it is the rate of the mode for the transmission vector and the station. This
  bitrate is the one that the dispatch of an eligible mode passes on.
\<close>

theorem phyRate_selection:
  "((IsMu txVector \<and> staId = SU_STA_ID E) \<or> mode \<noteq> GetMode txVector staId \<longrightarrow>
      DoGetChunkSuccessRate_phyRate E mode txVector staId
      = GetPhyRate_width E mode
          (if 40 \<le> GetChannelWidth txVector then 20 else GetChannelWidth txVector)) \<and>
   (\<not> ((IsMu txVector \<and> staId = SU_STA_ID E) \<or> mode \<noteq> GetMode txVector staId) \<longrightarrow>
      DoGetChunkSuccessRate_phyRate E mode txVector staId
      = GetPhyRate_txVector E mode txVector staId) \<and>
   (WIFI_MOD_CLASS_ERP_OFDM E \<le> GetModulationClass mode \<longrightarrow>
      DoGetChunkSuccessRate E mode txVector snr nbits numRxAntennas field staId
      = spec_coded_success E mode snr nbits (GetChannelWidth txVector)
          (DoGetChunkSuccessRate_phyRate E mode txVector staId))"
  by (simp add: DoGetChunkSuccessRate_phyRate_def DoGet_refines)

theorem phyRate_selection_witness:
  "DoGetChunkSuccessRate_phyRate ex_E (ex_mode 7 4 2 WIFI_CODE_RATE_1_2)
     (ex_txVector False (ex_mode 8 4 4 WIFI_CODE_RATE_1_2) 80) 0 = 6000000 \<and>
   DoGetChunkSuccessRate_phyRate ex_E (ex_mode 7 4 2 WIFI_CODE_RATE_1_2)
     (ex_txVector False (ex_mode 8 4 4 WIFI_CODE_RATE_1_2) 10) 0 = 3000000 \<and>
   DoGetChunkSuccessRate_phyRate ex_E (ex_mode 7 4 2 WIFI_CODE_RATE_1_2)
     (ex_txVector True (ex_mode 7 4 2 WIFI_CODE_RATE_1_2) 80) 65535 = 6000000 \<and>
   DoGetChunkSuccessRate_phyRate ex_E (ex_mode 8 4 4 WIFI_CODE_RATE_1_2)
     (ex_txVector False (ex_mode 8 4 4 WIFI_CODE_RATE_1_2) 80) 0 = 24000000 \<and>
   DoGetChunkSuccessRate ex_E (ex_mode 7 4 2 WIFI_CODE_RATE_1_2)
     (ex_txVector False (ex_mode 8 4 4 WIFI_CODE_RATE_1_2) 80) 10 1000 1 WIFI_PPDU_FIELD_HEADER 0
   = spec_coded_success ex_E (ex_mode 7 4 2 WIFI_CODE_RATE_1_2) 10 1000 80 6000000"
proof -
  let ?bpsk = "ex_mode 7 4 2 WIFI_CODE_RATE_1_2"
  let ?qam = "ex_mode 8 4 4 WIFI_CODE_RATE_1_2"
  have ne: "?bpsk \<noteq> GetMode (ex_txVector False ?qam w) 0" for w
    by (simp add: ex_mode_def ex_txVector_def)
  have mu: "IsMu (ex_txVector True ?bpsk 80) \<and> 65535 = SU_STA_ID ex_E"
    by (simp add: ex_E_def ex_txVector_def)
  have su: "\<not> ((IsMu (ex_txVector False ?qam 80) \<and> 0 = SU_STA_ID ex_E)
      \<or> ?qam \<noteq> GetMode (ex_txVector False ?qam 80) 0)"
    by (simp add: ex_E_def ex_txVector_def)
  have el: "WIFI_MOD_CLASS_ERP_OFDM ex_E \<le> GetModulationClass ?bpsk"
    by (simp add: ex_mode_def ex_E_def)
  have w20: "GetPhyRate_width ex_E m 20 = 6000000" "GetPhyRate_width ex_E m 10 = 3000000" for m
    by (simp_all add: ex_E_def)
  have wtx: "GetPhyRate_txVector ex_E m (ex_txVector b m' 80) s = 24000000" for m b m' s
    by (simp add: ex_E_def ex_txVector_def)
  have cw: "GetChannelWidth (ex_txVector b m w) = w" for b m w
    by (simp add: ex_txVector_def)
  note T1 = phyRate_selection [of "ex_txVector False ?qam 80" 0 ex_E ?bpsk 10 1000 1
      WIFI_PPDU_FIELD_HEADER]
  note T2 = phyRate_selection [of "ex_txVector False ?qam 10" 0 ex_E ?bpsk 10 1000 1
      WIFI_PPDU_FIELD_HEADER]
  note T3 = phyRate_selection [of "ex_txVector True ?bpsk 80" 65535 ex_E ?bpsk 10 1000 1
      WIFI_PPDU_FIELD_HEADER]
  note T4 = phyRate_selection [of "ex_txVector False ?qam 80" 0 ex_E ?qam 10 1000 1
      WIFI_PPDU_FIELD_DATA]
  have a: "DoGetChunkSuccessRate_phyRate ex_E ?bpsk (ex_txVector False ?qam 80) 0 = 6000000"
    using T1 ne [of 80] by (simp add: cw w20)
  have b: "DoGetChunkSuccessRate_phyRate ex_E ?bpsk (ex_txVector False ?qam 10) 0 = 3000000"
    using T2 ne [of 10] by (simp add: cw w20)
  have c: "DoGetChunkSuccessRate_phyRate ex_E ?bpsk (ex_txVector True ?bpsk 80) 65535 = 6000000"
    using T3 mu by (simp add: cw w20)
  have d: "DoGetChunkSuccessRate_phyRate ex_E ?qam (ex_txVector False ?qam 80) 0 = 24000000"
    using T4 su by (simp add: cw wtx)
  have e: "DoGetChunkSuccessRate ex_E ?bpsk (ex_txVector False ?qam 80) 10 1000 1
      WIFI_PPDU_FIELD_HEADER 0 = spec_coded_success ex_E ?bpsk 10 1000 80 6000000"
    using T1 el by (simp add: cw a)
  from a b c d e show ?thesis by blast
qed

subsection \<open>The empty chunk\<close>

lemma spec_table_None:
  "spec_table c r = None \<longleftrightarrow> c \<notin> {2, 4, 16, 64, 256, 1024, 4096}"
  by (simp add: spec_table_def)

lemma spec_coded_success_nbits_0:
  assumes "spec_table (GetConstellationSize mode) (GetCodeRate mode) \<noteq> None"
  shows "spec_coded_success E mode snr 0 w r = Inr 1"
proof -
  from assms obtain dFree adFree x
    where t: "spec_table (GetConstellationSize mode) (GetCodeRate mode) = Some (dFree, adFree, x)"
    by (metis not_None_eq prod_cases3)
  have d: "unat dFree \<le> 11" using t by (rule spec_table_distance)
  then have d': "unat dFree \<le> 12" by simp
  show ?thesis
    using t GetFecBpskBer_nbits_0 [OF d'] GetFecQamBer_nbits_0 [OF d]
    by (cases x) (simp_all add: spec_coded_success_def)
qed

text \<open>
  Claim C3, as stated, has \<open>nbits = 0\<close> answered by 1 for every scheme, the ineligible
  ones included. A mode below ERP-OFDM is answered by 0 before the bit count is looked
  at.
\<close>

theorem empty_chunk_counterexample:
  "DoGetChunkSuccessRate ex_E (ex_mode 1 1 2 WIFI_CODE_RATE_1_2)
     (ex_txVector False (ex_mode 1 1 2 WIFI_CODE_RATE_1_2) 22) 10 0 1 WIFI_PPDU_FIELD_DATA 0
   \<noteq> Inr 1"
  by (simp add: DoGet_ineligible ex_mode_def ex_E_def)

text \<open>
  Claim C3, amended: for every mode of an eligible class whose constellation size is
  one of the table, every transmission vector and every SNR, \<open>DoGetChunkSuccessRate\<close>
  with \<open>nbits = 0\<close> returns exactly 1.
\<close>

theorem empty_chunk_succeeds:
  assumes "WIFI_MOD_CLASS_ERP_OFDM E \<le> GetModulationClass mode"
    and "GetConstellationSize mode \<in> {2, 4, 16, 64, 256, 1024, 4096}"
  shows "DoGetChunkSuccessRate E mode txVector snr 0 numRxAntennas field staId = Inr 1"
proof -
  have "spec_table (GetConstellationSize mode) (GetCodeRate mode) \<noteq> None"
    using assms(2) by (simp only: spec_table_None) simp
  then show ?thesis
    using assms(1) by (simp add: DoGet_refines spec_coded_success_nbits_0)
qed

theorem empty_chunk_succeeds_witness:
  "WIFI_MOD_CLASS_ERP_OFDM ex_E \<le> GetModulationClass (ex_mode 9 5 64 WIFI_CODE_RATE_5_6) \<and>
   GetConstellationSize (ex_mode 9 5 64 WIFI_CODE_RATE_5_6) \<in> {2, 4, 16, 64, 256, 1024, 4096} \<and>
   DoGetChunkSuccessRate ex_E (ex_mode 9 5 64 WIFI_CODE_RATE_5_6)
     (ex_txVector False (ex_mode 9 5 64 WIFI_CODE_RATE_5_6) 20) 10 0 1 WIFI_PPDU_FIELD_DATA 0
   = Inr 1"
proof -
  have a: "WIFI_MOD_CLASS_ERP_OFDM ex_E \<le> GetModulationClass (ex_mode 9 5 64 WIFI_CODE_RATE_5_6)"
    by (simp add: ex_mode_def ex_E_def)
  have b: "GetConstellationSize (ex_mode 9 5 64 WIFI_CODE_RATE_5_6)
      \<in> {2, 4, 16, 64, 256, 1024, 4096}"
    by (simp add: ex_mode_def)
  from a b empty_chunk_succeeds [OF a b] show ?thesis by blast
qed

subsection \<open>The signal spread of a header evaluation\<close>

text \<open>
  Claim C10: when the bitrate is the 20 MHz rate of the mode because the evaluation is
  one of the header case on a channel of at least 40 MHz, the signal spread from which
  the raw bit error rate is computed is the channel width of the transmission vector:
  only the bitrate argument is the one of 20 MHz. The second conjunct spells out where
  the signal spread enters the binary raw bit error rate.
\<close>

theorem signal_spread_is_channel_width:
  assumes "WIFI_MOD_CLASS_ERP_OFDM E \<le> GetModulationClass mode"
    and "(IsMu txVector \<and> staId = SU_STA_ID E) \<or> mode \<noteq> GetMode txVector staId"
    and "40 \<le> GetChannelWidth txVector"
  shows "DoGetChunkSuccessRate E mode txVector snr nbits numRxAntennas field staId
      = spec_coded_success E mode snr nbits (GetChannelWidth txVector) (GetPhyRate_width E mode 20)
    \<and> GetBpskBer E snr (GetChannelWidth txVector) (GetPhyRate_width E mode 20)
      = 0.5 * erfc E (sqrt (snr * GetChannelWidth txVector * 1000000
                              / real (unat (GetPhyRate_width E mode 20))))"
  using assms by (simp add: DoGet_refines DoGetChunkSuccessRate_phyRate_def GetBpskBer_def Let_def)

theorem signal_spread_is_channel_width_witness:
  "DoGetChunkSuccessRate ex_E (ex_mode 7 4 2 WIFI_CODE_RATE_1_2)
     (ex_txVector False (ex_mode 8 4 4 WIFI_CODE_RATE_1_2) 80) 10 1000 1 WIFI_PPDU_FIELD_HEADER 0
   = spec_coded_success ex_E (ex_mode 7 4 2 WIFI_CODE_RATE_1_2) 10 1000 80 6000000 \<and>
   GetBpskBer ex_E 10 80 6000000 = 0.5 * ex_erfc (sqrt (10 * 80 * 1000000 / real (unat (6000000 :: 64 word))))"
proof -
  let ?bpsk = "ex_mode 7 4 2 WIFI_CODE_RATE_1_2"
  let ?tx = "ex_txVector False (ex_mode 8 4 4 WIFI_CODE_RATE_1_2) 80"
  have el: "WIFI_MOD_CLASS_ERP_OFDM ex_E \<le> GetModulationClass ?bpsk"
    by (simp add: ex_mode_def ex_E_def)
  have ne: "(IsMu ?tx \<and> 0 = SU_STA_ID ex_E) \<or> ?bpsk \<noteq> GetMode ?tx 0"
    by (simp add: ex_mode_def ex_txVector_def)
  have cw: "GetChannelWidth ?tx = 80"
    by (simp add: ex_txVector_def)
  have w: "40 \<le> GetChannelWidth ?tx"
    by (simp add: cw)
  have r: "GetPhyRate_width ex_E ?bpsk 20 = 6000000"
    by (simp add: ex_E_def)
  have e: "erfc ex_E = ex_erfc"
    by (simp add: ex_E_def)
  show ?thesis
    using signal_spread_is_channel_width [OF el ne w, of 10 1000 1 WIFI_PPDU_FIELD_HEADER]
    unfolding cw r e .
qed

subsection \<open>Schemes outside the table\<close>

text \<open>
  Claim C2, as stated, has every call whose constellation size or code rate is outside
  the table rejected. The function has no rejecting branch: binary modulation at code
  rate 5/6, a rate that the table does not list for it, is answered with the
  coefficients of the last branch, free distance 5 and weight 8.
\<close>

theorem unlisted_code_rate_counterexample:
  "DoGetChunkSuccessRate ex_E (ex_mode 7 4 2 WIFI_CODE_RATE_5_6)
     (ex_txVector False (ex_mode 7 4 2 WIFI_CODE_RATE_5_6) 20) 10 1000 1 WIFI_PPDU_FIELD_DATA 0
   = GetFecBpskBer ex_E 10 1000 20 6000000 5 8 \<and>
   \<not> isl (DoGetChunkSuccessRate ex_E (ex_mode 7 4 2 WIFI_CODE_RATE_5_6)
     (ex_txVector False (ex_mode 7 4 2 WIFI_CODE_RATE_5_6) 20) 10 1000 1 WIFI_PPDU_FIELD_DATA 0)"
proof -
  have "DoGetChunkSuccessRate_phyRate ex_E (ex_mode 7 4 2 WIFI_CODE_RATE_5_6)
      (ex_txVector False (ex_mode 7 4 2 WIFI_CODE_RATE_5_6) 20) 0 = 6000000"
    by (simp add: DoGetChunkSuccessRate_phyRate_def ex_E_def ex_txVector_def)
  then have "DoGetChunkSuccessRate ex_E (ex_mode 7 4 2 WIFI_CODE_RATE_5_6)
     (ex_txVector False (ex_mode 7 4 2 WIFI_CODE_RATE_5_6) 20) 10 1000 1 WIFI_PPDU_FIELD_DATA 0
   = GetFecBpskBer ex_E 10 1000 20 6000000 5 8"
    by (simp add: DoGetChunkSuccessRate_def Let_def)
      (simp add: ex_E_def ex_mode_def ex_txVector_def)
  then show ?thesis
    using DoGet_total by blast
qed

text \<open>
  Claim C2, amended: no call is rejected. For a mode of an eligible class, a code rate
  that is not listed for its constellation size is answered with the coefficients of
  the last branch of that size (free distance 5, weight 8 and, for the M-ary sizes,
  weight 31 at the free distance plus one), and a constellation size outside the table
  is answered by 0.
\<close>

theorem unlisted_scheme_defaults:
  assumes "WIFI_MOD_CLASS_ERP_OFDM E \<le> GetModulationClass mode"
  shows "\<not> isl (DoGetChunkSuccessRate E mode txVector snr nbits numRxAntennas field staId) \<and>
    (GetConstellationSize mode = 2 \<and> GetCodeRate mode \<noteq> WIFI_CODE_RATE_1_2 \<longrightarrow>
       DoGetChunkSuccessRate E mode txVector snr nbits numRxAntennas field staId
       = GetFecBpskBer E snr nbits (GetChannelWidth txVector)
           (DoGetChunkSuccessRate_phyRate E mode txVector staId) 5 8) \<and>
    ((GetConstellationSize mode = 4 \<or> GetConstellationSize mode = 16)
        \<and> GetCodeRate mode \<noteq> WIFI_CODE_RATE_1_2 \<longrightarrow>
       DoGetChunkSuccessRate E mode txVector snr nbits numRxAntennas field staId
       = GetFecQamBer E snr nbits (GetChannelWidth txVector)
           (DoGetChunkSuccessRate_phyRate E mode txVector staId)
           (ucast (GetConstellationSize mode)) 5 8 31) \<and>
    (GetConstellationSize mode = 64 \<and> GetCodeRate mode \<noteq> WIFI_CODE_RATE_2_3
        \<and> GetCodeRate mode \<noteq> WIFI_CODE_RATE_5_6 \<longrightarrow>
       DoGetChunkSuccessRate E mode txVector snr nbits numRxAntennas field staId
       = GetFecQamBer E snr nbits (GetChannelWidth txVector)
           (DoGetChunkSuccessRate_phyRate E mode txVector staId) 64 5 8 31) \<and>
    ((GetConstellationSize mode = 256 \<or> GetConstellationSize mode = 1024
        \<or> GetConstellationSize mode = 4096) \<and> GetCodeRate mode \<noteq> WIFI_CODE_RATE_5_6 \<longrightarrow>
       DoGetChunkSuccessRate E mode txVector snr nbits numRxAntennas field staId
       = GetFecQamBer E snr nbits (GetChannelWidth txVector)
           (DoGetChunkSuccessRate_phyRate E mode txVector staId)
           (ucast (GetConstellationSize mode)) 5 8 31) \<and>
    (GetConstellationSize mode \<notin> {2, 4, 16, 64, 256, 1024, 4096} \<longrightarrow>
       DoGetChunkSuccessRate E mode txVector snr nbits numRxAntennas field staId = Inr 0)"
proof -
  have "\<not> isl (DoGetChunkSuccessRate E mode txVector snr nbits numRxAntennas field staId)"
    by (rule DoGet_total)
  moreover have "GetConstellationSize mode = 2 \<and> GetCodeRate mode \<noteq> WIFI_CODE_RATE_1_2 \<longrightarrow>
       DoGetChunkSuccessRate E mode txVector snr nbits numRxAntennas field staId
       = GetFecBpskBer E snr nbits (GetChannelWidth txVector)
           (DoGetChunkSuccessRate_phyRate E mode txVector staId) 5 8"
    using assms by (simp add: DoGetChunkSuccessRate_def Let_def)
  moreover have "(GetConstellationSize mode = 4 \<or> GetConstellationSize mode = 16)
        \<and> GetCodeRate mode \<noteq> WIFI_CODE_RATE_1_2 \<longrightarrow>
       DoGetChunkSuccessRate E mode txVector snr nbits numRxAntennas field staId
       = GetFecQamBer E snr nbits (GetChannelWidth txVector)
           (DoGetChunkSuccessRate_phyRate E mode txVector staId)
           (ucast (GetConstellationSize mode)) 5 8 31"
    using assms by (auto simp add: DoGetChunkSuccessRate_def Let_def)
  moreover have "GetConstellationSize mode = 64 \<and> GetCodeRate mode \<noteq> WIFI_CODE_RATE_2_3
        \<and> GetCodeRate mode \<noteq> WIFI_CODE_RATE_5_6 \<longrightarrow>
       DoGetChunkSuccessRate E mode txVector snr nbits numRxAntennas field staId
       = GetFecQamBer E snr nbits (GetChannelWidth txVector)
           (DoGetChunkSuccessRate_phyRate E mode txVector staId) 64 5 8 31"
    using assms by (simp add: DoGetChunkSuccessRate_def Let_def)
  moreover have "(GetConstellationSize mode = 256 \<or> GetConstellationSize mode = 1024
        \<or> GetConstellationSize mode = 4096) \<and> GetCodeRate mode \<noteq> WIFI_CODE_RATE_5_6 \<longrightarrow>
       DoGetChunkSuccessRate E mode txVector snr nbits numRxAntennas field staId
       = GetFecQamBer E snr nbits (GetChannelWidth txVector)
           (DoGetChunkSuccessRate_phyRate E mode txVector staId)
           (ucast (GetConstellationSize mode)) 5 8 31"
    using assms by (auto simp add: DoGetChunkSuccessRate_def Let_def)
  moreover have "GetConstellationSize mode \<notin> {2, 4, 16, 64, 256, 1024, 4096} \<longrightarrow>
       DoGetChunkSuccessRate E mode txVector snr nbits numRxAntennas field staId = Inr 0"
    using assms by (simp add: DoGetChunkSuccessRate_def Let_def)
  ultimately show ?thesis by blast
qed

theorem unlisted_scheme_defaults_witness:
  "\<not> isl (DoGetChunkSuccessRate ex_E (ex_mode 7 4 2 WIFI_CODE_RATE_5_6)
      (ex_txVector False (ex_mode 7 4 2 WIFI_CODE_RATE_5_6) 20) 10 1000 1 WIFI_PPDU_FIELD_DATA 0) \<and>
   DoGetChunkSuccessRate ex_E (ex_mode 7 4 2 WIFI_CODE_RATE_5_6)
      (ex_txVector False (ex_mode 7 4 2 WIFI_CODE_RATE_5_6) 20) 10 1000 1 WIFI_PPDU_FIELD_DATA 0
     = GetFecBpskBer ex_E 10 1000 20 6000000 5 8 \<and>
   DoGetChunkSuccessRate ex_E (ex_mode 8 4 16 WIFI_CODE_RATE_5_6)
      (ex_txVector False (ex_mode 8 4 16 WIFI_CODE_RATE_5_6) 20) 10 1000 1 WIFI_PPDU_FIELD_DATA 0
     = GetFecQamBer ex_E 10 1000 20 6000000 16 5 8 31 \<and>
   DoGetChunkSuccessRate ex_E (ex_mode 9 4 64 WIFI_CODE_RATE_1_2)
      (ex_txVector False (ex_mode 9 4 64 WIFI_CODE_RATE_1_2) 20) 10 1000 1 WIFI_PPDU_FIELD_DATA 0
     = GetFecQamBer ex_E 10 1000 20 6000000 64 5 8 31 \<and>
   DoGetChunkSuccessRate ex_E (ex_mode 10 6 256 WIFI_CODE_RATE_1_2)
      (ex_txVector False (ex_mode 10 6 256 WIFI_CODE_RATE_1_2) 20) 10 1000 1 WIFI_PPDU_FIELD_DATA 0
     = GetFecQamBer ex_E 10 1000 20 6000000 256 5 8 31 \<and>
   DoGetChunkSuccessRate ex_E (ex_mode 11 4 8 WIFI_CODE_RATE_1_2)
      (ex_txVector False (ex_mode 11 4 8 WIFI_CODE_RATE_1_2) 20) 10 1000 1 WIFI_PPDU_FIELD_DATA 0
     = Inr 0"
proof -
  have r: "DoGetChunkSuccessRate_phyRate ex_E m (ex_txVector False m 20) 0 = 6000000" for m
    by (simp add: DoGetChunkSuccessRate_phyRate_def ex_E_def ex_txVector_def)
  have w: "GetChannelWidth (ex_txVector False m 20) = 20" for m
    by (simp add: ex_txVector_def)
  have el: "WIFI_MOD_CLASS_ERP_OFDM ex_E \<le> GetModulationClass (ex_mode u 4 c k)"
    "WIFI_MOD_CLASS_ERP_OFDM ex_E \<le> GetModulationClass (ex_mode u 6 c k)" for u c k
    by (simp_all add: ex_mode_def ex_E_def)
  have c: "GetConstellationSize (ex_mode u cls c k) = c"
    and k: "GetCodeRate (ex_mode u cls c k) = k" for u cls c k
    by (simp_all add: ex_mode_def)
  note T1 = unlisted_scheme_defaults [OF el(1) [of 7 2 WIFI_CODE_RATE_5_6],
      of "ex_txVector False (ex_mode 7 4 2 WIFI_CODE_RATE_5_6) 20" 10 1000 1 WIFI_PPDU_FIELD_DATA 0,
      unfolded r w c k]
  note T2 = unlisted_scheme_defaults [OF el(1) [of 8 16 WIFI_CODE_RATE_5_6],
      of "ex_txVector False (ex_mode 8 4 16 WIFI_CODE_RATE_5_6) 20" 10 1000 1 WIFI_PPDU_FIELD_DATA 0,
      unfolded r w c k]
  note T3 = unlisted_scheme_defaults [OF el(1) [of 9 64 WIFI_CODE_RATE_1_2],
      of "ex_txVector False (ex_mode 9 4 64 WIFI_CODE_RATE_1_2) 20" 10 1000 1 WIFI_PPDU_FIELD_DATA 0,
      unfolded r w c k]
  note T4 = unlisted_scheme_defaults [OF el(2) [of 10 256 WIFI_CODE_RATE_1_2],
      of "ex_txVector False (ex_mode 10 6 256 WIFI_CODE_RATE_1_2) 20" 10 1000 1 WIFI_PPDU_FIELD_DATA 0,
      unfolded r w c k]
  note T5 = unlisted_scheme_defaults [OF el(1) [of 11 8 WIFI_CODE_RATE_1_2],
      of "ex_txVector False (ex_mode 11 4 8 WIFI_CODE_RATE_1_2) 20" 10 1000 1 WIFI_PPDU_FIELD_DATA 0,
      unfolded r w c k]
  have "\<not> isl (DoGetChunkSuccessRate ex_E (ex_mode 7 4 2 WIFI_CODE_RATE_5_6)
      (ex_txVector False (ex_mode 7 4 2 WIFI_CODE_RATE_5_6) 20) 10 1000 1 WIFI_PPDU_FIELD_DATA 0)"
    using T1 by blast
  moreover have "DoGetChunkSuccessRate ex_E (ex_mode 7 4 2 WIFI_CODE_RATE_5_6)
      (ex_txVector False (ex_mode 7 4 2 WIFI_CODE_RATE_5_6) 20) 10 1000 1 WIFI_PPDU_FIELD_DATA 0
     = GetFecBpskBer ex_E 10 1000 20 6000000 5 8"
    using T1 by simp
  moreover have "DoGetChunkSuccessRate ex_E (ex_mode 8 4 16 WIFI_CODE_RATE_5_6)
      (ex_txVector False (ex_mode 8 4 16 WIFI_CODE_RATE_5_6) 20) 10 1000 1 WIFI_PPDU_FIELD_DATA 0
     = GetFecQamBer ex_E 10 1000 20 6000000 16 5 8 31"
    using T2 by simp
  moreover have "DoGetChunkSuccessRate ex_E (ex_mode 9 4 64 WIFI_CODE_RATE_1_2)
      (ex_txVector False (ex_mode 9 4 64 WIFI_CODE_RATE_1_2) 20) 10 1000 1 WIFI_PPDU_FIELD_DATA 0
     = GetFecQamBer ex_E 10 1000 20 6000000 64 5 8 31"
    using T3 by simp
  moreover have "DoGetChunkSuccessRate ex_E (ex_mode 10 6 256 WIFI_CODE_RATE_1_2)
      (ex_txVector False (ex_mode 10 6 256 WIFI_CODE_RATE_1_2) 20) 10 1000 1 WIFI_PPDU_FIELD_DATA 0
     = GetFecQamBer ex_E 10 1000 20 6000000 256 5 8 31"
    using T4 by simp
  moreover have "DoGetChunkSuccessRate ex_E (ex_mode 11 4 8 WIFI_CODE_RATE_1_2)
      (ex_txVector False (ex_mode 11 4 8 WIFI_CODE_RATE_1_2) 20) 10 1000 1 WIFI_PPDU_FIELD_DATA 0
     = Inr 0"
    using T5 by simp
  ultimately show ?thesis by blast
qed

subsection \<open>A raw bit error rate of exactly zero\<close>

lemma spec_coded_success_zero_ber:
  "(spec_table (GetConstellationSize mode) (GetCodeRate mode) = Some (d, a, None)
      \<longrightarrow> GetBpskBer E snr w r = 0 \<longrightarrow> spec_coded_success E mode snr nbits w r = Inr 1) \<and>
   (spec_table (GetConstellationSize mode) (GetCodeRate mode) = Some (d, a, Some a1)
      \<longrightarrow> GetQamBer E snr (ucast (GetConstellationSize mode)) w r = 0
      \<longrightarrow> spec_coded_success E mode snr nbits w r = Inr 1)"
  by (simp add: spec_coded_success_def GetFecBpskBer_def GetFecQamBer_def)

lemma spec_table_binary:
  "c = 2 \<Longrightarrow> \<exists>d a. spec_table c r = Some (d, a, None)"
  by (simp add: spec_table_def)

lemma spec_table_M_ary:
  "c \<in> {4, 16, 64, 256, 1024, 4096} \<Longrightarrow> \<exists>d a a1. spec_table c r = Some (d, a, Some a1)"
  by (auto simp: spec_table_def)

lemma sqrt_900: "sqrt 900 = 30"
  by (rule real_sqrt_unique) simp_all

lemma log_2_4: "log 2 4 = 2"
proof -
  have "log 2 (2 ^ 2) = real 2 * log 2 2" by (rule log_nat_power) simp
  then show ?thesis by simp
qed

lemma ex_bpsk_ber_zero: "GetBpskBer ex_E 270 20 6000000 = 0"
  by (simp add: GetBpskBer_def ex_E_def ex_erfc_def sqrt_900)

lemma ex_qam_ber_zero: "GetQamBer ex_E 270 4 20 6000000 = 0"
  by (simp add: GetQamBer_def ex_E_def ex_erfc_def log_2_4 sqrt_900)

text \<open>
  Claim C7: when the raw bit error rate of the call is exactly 0, \<open>GetFecBpskBer\<close> and
  \<open>GetFecQamBer\<close> return exactly 1 whatever the free distance and the weights are,
  also where the binomial terms of that distance would divide by zero, and so does
  \<open>DoGetChunkSuccessRate\<close> for every mode of an eligible class with a constellation
  size of the table.
\<close>

theorem zero_ber_short_circuit:
  "(GetBpskBer E snr signalSpread phyRate = 0 \<longrightarrow>
      GetFecBpskBer E snr nbits signalSpread phyRate dFree adFree = Inr 1) \<and>
   (GetQamBer E snr m signalSpread phyRate = 0 \<longrightarrow>
      GetFecQamBer E snr nbits signalSpread phyRate m dFree adFree adFreePlusOne = Inr 1) \<and>
   (WIFI_MOD_CLASS_ERP_OFDM E \<le> GetModulationClass mode \<and> GetConstellationSize mode = 2 \<and>
    GetBpskBer E snr (GetChannelWidth txVector)
      (DoGetChunkSuccessRate_phyRate E mode txVector staId) = 0 \<longrightarrow>
      DoGetChunkSuccessRate E mode txVector snr nbits numRxAntennas field staId = Inr 1) \<and>
   (WIFI_MOD_CLASS_ERP_OFDM E \<le> GetModulationClass mode \<and>
    GetConstellationSize mode \<in> {4, 16, 64, 256, 1024, 4096} \<and>
    GetQamBer E snr (ucast (GetConstellationSize mode)) (GetChannelWidth txVector)
      (DoGetChunkSuccessRate_phyRate E mode txVector staId) = 0 \<longrightarrow>
      DoGetChunkSuccessRate E mode txVector snr nbits numRxAntennas field staId = Inr 1)"
proof -
  have a: "GetBpskBer E snr signalSpread phyRate = 0 \<longrightarrow>
      GetFecBpskBer E snr nbits signalSpread phyRate dFree adFree = Inr 1"
    by (simp add: GetFecBpskBer_def)
  have b: "GetQamBer E snr m signalSpread phyRate = 0 \<longrightarrow>
      GetFecQamBer E snr nbits signalSpread phyRate m dFree adFree adFreePlusOne = Inr 1"
    by (simp add: GetFecQamBer_def)
  have c: "WIFI_MOD_CLASS_ERP_OFDM E \<le> GetModulationClass mode \<and> GetConstellationSize mode = 2 \<and>
    GetBpskBer E snr (GetChannelWidth txVector)
      (DoGetChunkSuccessRate_phyRate E mode txVector staId) = 0 \<longrightarrow>
      DoGetChunkSuccessRate E mode txVector snr nbits numRxAntennas field staId = Inr 1"
    using spec_table_binary [of "GetConstellationSize mode" "GetCodeRate mode"]
      spec_coded_success_zero_ber [of mode _ _ E snr "GetChannelWidth txVector"
        "DoGetChunkSuccessRate_phyRate E mode txVector staId" nbits]
    by (auto simp: DoGet_refines)
  have d: "WIFI_MOD_CLASS_ERP_OFDM E \<le> GetModulationClass mode \<and>
    GetConstellationSize mode \<in> {4, 16, 64, 256, 1024, 4096} \<and>
    GetQamBer E snr (ucast (GetConstellationSize mode)) (GetChannelWidth txVector)
      (DoGetChunkSuccessRate_phyRate E mode txVector staId) = 0 \<longrightarrow>
      DoGetChunkSuccessRate E mode txVector snr nbits numRxAntennas field staId = Inr 1"
  proof (intro impI, elim conjE)
    assume el: "WIFI_MOD_CLASS_ERP_OFDM E \<le> GetModulationClass mode"
      and c: "GetConstellationSize mode \<in> {4, 16, 64, 256, 1024, 4096}"
      and z: "GetQamBer E snr (ucast (GetConstellationSize mode)) (GetChannelWidth txVector)
        (DoGetChunkSuccessRate_phyRate E mode txVector staId) = 0"
    from spec_table_M_ary [OF c] obtain d a a1
      where "spec_table (GetConstellationSize mode) (GetCodeRate mode) = Some (d, a, Some a1)"
      by blast
    with z have "spec_coded_success E mode snr nbits (GetChannelWidth txVector)
        (DoGetChunkSuccessRate_phyRate E mode txVector staId) = Inr 1"
      using spec_coded_success_zero_ber by blast
    with el show "DoGetChunkSuccessRate E mode txVector snr nbits numRxAntennas field staId = Inr 1"
      by (simp add: DoGet_refines)
  qed
  from a b c d show ?thesis by blast
qed

theorem zero_ber_short_circuit_witness:
  "GetFecBpskBer ex_E 270 1000 20 6000000 10 11 = Inr 1 \<and>
   GetFecQamBer ex_E 270 1000 20 6000000 4 10 11 0 = Inr 1 \<and>
   DoGetChunkSuccessRate ex_E (ex_mode 7 4 2 WIFI_CODE_RATE_1_2)
     (ex_txVector False (ex_mode 7 4 2 WIFI_CODE_RATE_1_2) 20) 270 1000 1 WIFI_PPDU_FIELD_DATA 0
     = Inr 1 \<and>
   DoGetChunkSuccessRate ex_E (ex_mode 8 4 4 WIFI_CODE_RATE_1_2)
     (ex_txVector False (ex_mode 8 4 4 WIFI_CODE_RATE_1_2) 20) 270 1000 1 WIFI_PPDU_FIELD_DATA 0
     = Inr 1"
proof -
  let ?bpsk = "ex_mode 7 4 2 WIFI_CODE_RATE_1_2"
  let ?qam = "ex_mode 8 4 4 WIFI_CODE_RATE_1_2"
  have r: "DoGetChunkSuccessRate_phyRate ex_E m (ex_txVector False m 20) 0 = 6000000" for m
    by (simp add: DoGetChunkSuccessRate_phyRate_def ex_E_def ex_txVector_def)
  have w: "GetChannelWidth (ex_txVector False m 20) = 20" for m
    by (simp add: ex_txVector_def)
  have el: "WIFI_MOD_CLASS_ERP_OFDM ex_E \<le> GetModulationClass (ex_mode u 4 c k)" for u c k
    by (simp add: ex_mode_def ex_E_def)
  have c: "GetConstellationSize (ex_mode u cls c k) = c" for u cls c k
    by (simp add: ex_mode_def)
  have u4: "ucast (4 :: 16 word) = (4 :: 32 word)"
    by simp
  note T1 = zero_ber_short_circuit [of ex_E 270 20 6000000 1000 10 11 4 0 ?bpsk
      "ex_txVector False ?bpsk 20" 0 1 WIFI_PPDU_FIELD_DATA, unfolded r w c]
  note T2 = zero_ber_short_circuit [of ex_E 270 20 6000000 1000 10 11 4 0 ?qam
      "ex_txVector False ?qam 20" 0 1 WIFI_PPDU_FIELD_DATA, unfolded r w c u4]
  have "GetFecBpskBer ex_E 270 1000 20 6000000 10 11 = Inr 1"
    using T1 ex_bpsk_ber_zero by blast
  moreover have "GetFecQamBer ex_E 270 1000 20 6000000 4 10 11 0 = Inr 1"
    using T1 ex_qam_ber_zero by blast
  moreover have "DoGetChunkSuccessRate ex_E ?bpsk (ex_txVector False ?bpsk 20) 270 1000 1
      WIFI_PPDU_FIELD_DATA 0 = Inr 1"
    using T1 ex_bpsk_ber_zero el [of 7 2 WIFI_CODE_RATE_1_2] by blast
  moreover have "DoGetChunkSuccessRate ex_E ?qam (ex_txVector False ?qam 20) 270 1000 1
      WIFI_PPDU_FIELD_DATA 0 = Inr 1"
    using T2 ex_qam_ber_zero el [of 8 4 WIFI_CODE_RATE_1_2] by simp
  ultimately show ?thesis by blast
qed

subsection \<open>Every result is a probability\<close>

lemma spec_coded_success_range:
  assumes erfc: "\<forall>x\<ge>0. 0 \<le> erfc E x \<and> erfc E x \<le> 1"
    and snr: "0 \<le> snr" and w: "0 \<le> w"
  shows "\<exists>p. spec_coded_success E mode snr nbits w r = Inr p \<and> 0 \<le> p \<and> p \<le> 1"
proof (cases "spec_table (GetConstellationSize mode) (GetCodeRate mode)")
  case None
  then show ?thesis by (simp add: spec_coded_success_def)
next
  case (Some t)
  obtain dFree adFree x where t: "t = (dFree, adFree, x)" by (cases t)
  have d: "unat dFree \<le> 11" using Some t spec_table_distance by blast
  then have d': "unat dFree \<le> 12" by simp
  show ?thesis
  proof (cases x)
    case None
    have "0 \<le> GetBpskBer E snr w r \<and> GetBpskBer E snr w r \<le> 1"
      using erfc snr w by (rule GetBpskBer_range)
    then have "\<exists>p. GetFecBpskBer E snr nbits w r dFree adFree = Inr p \<and> 0 \<le> p \<and> p \<le> 1"
      using GetFecBpskBer_range [OF d'] by blast
    then show ?thesis
      using Some t None by (simp add: spec_coded_success_def)
  next
    case (Some a1)
    let ?m = "ucast (GetConstellationSize mode) :: 32 word"
    have m: "2 \<le> unat ?m"
      using \<open>spec_table (GetConstellationSize mode) (GetCodeRate mode) = Some t\<close> t Some
        spec_table_size by blast
    have "0 \<le> GetQamBer E snr ?m w r \<and> GetQamBer E snr ?m w r \<le> 1"
      using erfc snr w m by (rule GetQamBer_range)
    then have "\<exists>p. GetFecQamBer E snr nbits w r ?m dFree adFree a1 = Inr p \<and> 0 \<le> p \<and> p \<le> 1"
      using GetFecQamBer_range [OF d] by blast
    then show ?thesis
      using \<open>spec_table (GetConstellationSize mode) (GetCodeRate mode) = Some t\<close> t Some
      by (simp add: spec_coded_success_def)
  qed
qed

lemma ex_erfc_range: "\<forall>x\<ge>0. 0 \<le> erfc ex_E x \<and> erfc ex_E x \<le> 1"
proof (intro allI impI)
  fix x :: real
  assume "0 \<le> x"
  then have ge: "1 \<le> (1 + x) ^ 2" by (simp add: one_le_power)
  then have "0 < (1 + x) ^ 2" by linarith
  with ge have "1 / (1 + x) ^ 2 \<le> 1" by (simp only: divide_le_eq_1_pos)
  then show "0 \<le> erfc ex_E x \<and> erfc ex_E x \<le> 1"
    by (simp add: ex_E_def ex_erfc_def)
qed

text \<open>
  Claim C5: for a non-negative SNR, a positive channel width and a positive bitrate,
  \<open>GetFecBpskBer\<close> and \<open>GetFecQamBer\<close> at a free distance of the table (at most 11,
  and a constellation size of at least 2 for the M-ary formula) and
  \<open>DoGetChunkSuccessRate\<close> at every mode return a value, and the value lies between 0
  and 1. The complementary error function is taken to have its values between 0 and 1 on
  non-negative arguments, as the one of the C library has.
\<close>

theorem success_rate_is_probability:
  assumes erfc: "\<forall>x\<ge>0. 0 \<le> erfc E x \<and> erfc E x \<le> 1"
    and snr: "0 \<le> snr"
  shows
   "(0 < signalSpread \<and> 0 < unat phyRate \<and> unat dFree \<le> 11 \<longrightarrow>
      (\<exists>p. GetFecBpskBer E snr nbits signalSpread phyRate dFree adFree = Inr p
           \<and> 0 \<le> p \<and> p \<le> 1)) \<and>
    (0 < signalSpread \<and> 0 < unat phyRate \<and> unat dFree \<le> 11 \<and> 2 \<le> unat m \<longrightarrow>
      (\<exists>p. GetFecQamBer E snr nbits signalSpread phyRate m dFree adFree adFreePlusOne = Inr p
           \<and> 0 \<le> p \<and> p \<le> 1)) \<and>
    (0 < GetChannelWidth txVector
       \<and> 0 < unat (DoGetChunkSuccessRate_phyRate E mode txVector staId) \<longrightarrow>
      (\<exists>p. DoGetChunkSuccessRate E mode txVector snr nbits numRxAntennas field staId = Inr p
           \<and> 0 \<le> p \<and> p \<le> 1))"
proof (intro conjI impI)
  assume h: "0 < signalSpread \<and> 0 < unat phyRate \<and> unat dFree \<le> 11"
  then have d: "unat dFree \<le> 12" and w: "0 \<le> signalSpread" by simp_all
  have "0 \<le> GetBpskBer E snr signalSpread phyRate \<and> GetBpskBer E snr signalSpread phyRate \<le> 1"
    using erfc snr w by (rule GetBpskBer_range)
  then show "\<exists>p. GetFecBpskBer E snr nbits signalSpread phyRate dFree adFree = Inr p
      \<and> 0 \<le> p \<and> p \<le> 1"
    using GetFecBpskBer_range [OF d] by blast
next
  assume h: "0 < signalSpread \<and> 0 < unat phyRate \<and> unat dFree \<le> 11 \<and> 2 \<le> unat m"
  then have d: "unat dFree \<le> 11" and w: "0 \<le> signalSpread" and m: "2 \<le> unat m"
    by simp_all
  have "0 \<le> GetQamBer E snr m signalSpread phyRate \<and> GetQamBer E snr m signalSpread phyRate \<le> 1"
    using erfc snr w m by (rule GetQamBer_range)
  then show "\<exists>p. GetFecQamBer E snr nbits signalSpread phyRate m dFree adFree adFreePlusOne = Inr p
      \<and> 0 \<le> p \<and> p \<le> 1"
    using GetFecQamBer_range [OF d] by blast
next
  assume h: "0 < GetChannelWidth txVector
    \<and> 0 < unat (DoGetChunkSuccessRate_phyRate E mode txVector staId)"
  then have w: "0 \<le> GetChannelWidth txVector" by simp
  show "\<exists>p. DoGetChunkSuccessRate E mode txVector snr nbits numRxAntennas field staId = Inr p
      \<and> 0 \<le> p \<and> p \<le> 1"
    using spec_coded_success_range [OF erfc snr w] by (simp add: DoGet_refines)
qed

theorem success_rate_is_probability_witness:
  "(\<exists>p. GetFecBpskBer ex_E 10 1000 20 6000000 10 11 = Inr p \<and> 0 \<le> p \<and> p \<le> 1) \<and>
   (\<exists>p. GetFecQamBer ex_E 10 1000 20 6000000 64 4 14 69 = Inr p \<and> 0 \<le> p \<and> p \<le> 1) \<and>
   (\<exists>p. DoGetChunkSuccessRate ex_E (ex_mode 9 5 64 WIFI_CODE_RATE_5_6)
      (ex_txVector False (ex_mode 9 5 64 WIFI_CODE_RATE_5_6) 20) 10 1000 1 WIFI_PPDU_FIELD_DATA 0
      = Inr p \<and> 0 \<le> p \<and> p \<le> 1)"
proof -
  let ?qam = "ex_mode 9 5 64 WIFI_CODE_RATE_5_6"
  have snr: "(0::real) \<le> 10" by simp
  have r: "DoGetChunkSuccessRate_phyRate ex_E m (ex_txVector False m 20) 0 = 6000000" for m
    by (simp add: DoGetChunkSuccessRate_phyRate_def ex_E_def ex_txVector_def)
  have w: "GetChannelWidth (ex_txVector False m 20) = 20" for m
    by (simp add: ex_txVector_def)
  note T = success_rate_is_probability [OF ex_erfc_range snr,
      of 20 6000000 10 1000 11 64 69 "ex_txVector False ?qam 20" ?qam 0 1 WIFI_PPDU_FIELD_DATA,
      unfolded r w]
  note U = success_rate_is_probability [OF ex_erfc_range snr,
      of 20 6000000 4 1000 14 64 69 "ex_txVector False ?qam 20" ?qam 0 1 WIFI_PPDU_FIELD_DATA,
      unfolded r w]
  have a: "\<exists>p. GetFecBpskBer ex_E 10 1000 20 6000000 10 11 = Inr p \<and> 0 \<le> p \<and> p \<le> 1"
    using T by simp
  have b: "\<exists>p. GetFecQamBer ex_E 10 1000 20 6000000 64 4 14 69 = Inr p \<and> 0 \<le> p \<and> p \<le> 1"
    using U by simp
  have c: "\<exists>p. DoGetChunkSuccessRate ex_E ?qam (ex_txVector False ?qam 20) 10 1000 1
      WIFI_PPDU_FIELD_DATA 0 = Inr p \<and> 0 \<le> p \<and> p \<le> 1"
    using T by simp
  from a b c show ?thesis by blast
qed

end
